theory Spec2Isabelle
  imports Complex_Main
begin

section \<open>Data model\<close>

subsection \<open>JSON values as Python sees them\<close>

text \<open>
  What \<^verbatim>\<open>json.load\<close>, \<^verbatim>\<open>response.json()\<close> and \<^verbatim>\<open>yaml.safe_load\<close> return:
  \<^verbatim>\<open>None\<close>, \<^verbatim>\<open>bool\<close>, \<^verbatim>\<open>int\<close>, \<^verbatim>\<open>float\<close>, \<^verbatim>\<open>str\<close>, \<^verbatim>\<open>list\<close> and \<^verbatim>\<open>dict\<close>.
  A dict is an association list in insertion order; a parsed dict has distinct keys.
  A finite float is represented by its exact value; the non-finite floats, which are
  no JSON, are not represented.
\<close>

datatype json =
    JNull
  | JBool bool
  | JInt int
  | JFloat rat
  | JStr string
  | JArr "json list"
  | JObj "(string \<times> json) list"

datatype exn_class =
    HTTPError | RequestException | JSONDecodeError | OSError | TypeError
  | AttributeError | KeyError | UnboundLocalError | NameError

text \<open>A response, by what the scripts read of it; \<open>json_body\<close> is the result of
  \<^verbatim>\<open>response.json()\<close>, \<open>None\<close> when the body is no JSON and the call raises.\<close>

record response =
  status_code :: int
  text' :: string
  json_body :: "json option"

text \<open>An exception: its class, \<^verbatim>\<open>str(e)\<close>, and \<^verbatim>\<open>e.response\<close> (which only the
  exceptions of \<^verbatim>\<open>requests\<close> have, and which may be \<^verbatim>\<open>None\<close>).\<close>

datatype exn = Exn (cls: exn_class) (str: string) (exn_response: "response option")

definition raise :: "exn_class \<Rightarrow> string \<Rightarrow> exn" where
  "raise c m = Exn c m None"

definition is_HTTPError :: "exn \<Rightarrow> bool" where
  "is_HTTPError e = (cls e = HTTPError)"

text \<open>\<^verbatim>\<open>requests.exceptions.HTTPError\<close> is a subclass of \<^verbatim>\<open>RequestException\<close>.\<close>

definition is_RequestException :: "exn \<Rightarrow> bool" where
  "is_RequestException e = (cls e = HTTPError \<or> cls e = RequestException)"

text \<open>
  \<^verbatim>\<open>remap(root, lambda p, k, v: k != 'term')\<close> of boltons: every item of every
  container is visited with its key (a dict key, or the index in a list) and dropped
  when the visit returns False; a root that is no container raises TypeError.
\<close>

fun drop_term :: "json \<Rightarrow> json" where
  "drop_term (JObj kvs) =
     JObj (map (\<lambda>(k, v). (k, drop_term v)) (filter (\<lambda>(k, v). k \<noteq> ''term'') kvs))"
| "drop_term (JArr xs) = JArr (map drop_term xs)"
| "drop_term v = v"

fun remap :: "json \<Rightarrow> exn + json" where
  "remap (JObj kvs) = Inr (drop_term (JObj kvs))"
| "remap (JArr xs) = Inr (drop_term (JArr xs))"
| "remap v = Inl (raise TypeError ''expected remappable root'')"

text \<open>Python's \<^verbatim>\<open>==\<close> on these values: \<^verbatim>\<open>True == 1 == 1.0\<close>, lists compare
  elementwise, dicts by key regardless of order.\<close>

fun num_val :: "json \<Rightarrow> rat option" where
  "num_val (JBool b) = Some (if b then 1 else 0)"
| "num_val (JInt i) = Some (of_int i)"
| "num_val (JFloat q) = Some q"
| "num_val v = None"

fun py_eq :: "json \<Rightarrow> json \<Rightarrow> bool" where
  "py_eq (JArr xs) (JArr ys) = list_all2 py_eq xs ys"
| "py_eq (JObj a) (JObj b) =
     (length a = length b \<and>
      list_all (\<lambda>(k, v). case map_of b k of None \<Rightarrow> False | Some w \<Rightarrow> py_eq v w) a)"
| "py_eq (JStr s) (JStr t) = (s = t)"
| "py_eq JNull JNull = True"
| "py_eq x y = (case (num_val x, num_val y) of (Some p, Some q) \<Rightarrow> p = q | _ \<Rightarrow> False)"

text \<open>Truth value of a Python object, as \<^verbatim>\<open>if not tool_id\<close> tests it.\<close>

fun truthy :: "json \<Rightarrow> bool" where
  "truthy JNull = False"
| "truthy (JBool b) = b"
| "truthy (JInt i) = (i \<noteq> 0)"
| "truthy (JFloat q) = (q \<noteq> 0)"
| "truthy (JStr s) = (s \<noteq> [])"
| "truthy (JArr xs) = (xs \<noteq> [])"
| "truthy (JObj kvs) = (kvs \<noteq> [])"

text \<open>\<^verbatim>\<open>d.get(k, default)\<close>: only a dict has the method.\<close>

fun get_method :: "json \<Rightarrow> string \<Rightarrow> json \<Rightarrow> exn + json" where
  "get_method (JObj kvs) k dflt = Inr (case map_of kvs k of None \<Rightarrow> dflt | Some v \<Rightarrow> v)"
| "get_method v k dflt = Inl (raise AttributeError ''object has no attribute get'')"

text \<open>\<^verbatim>\<open>d[k]\<close> with a string key.\<close>

fun subscript :: "json \<Rightarrow> string \<Rightarrow> exn + json" where
  "subscript (JObj kvs) k = (case map_of kvs k of None \<Rightarrow> Inl (raise KeyError k) | Some v \<Rightarrow> Inr v)"
| "subscript v k = Inl (raise TypeError ''indices must be integers or object is not subscriptable'')"

subsection \<open>The outside world\<close>

datatype http_method = GET | POST | PUT | DELETE

text \<open>A request: method, URL, the token of the Authorization header when the header
  is sent (Content-Type and Accept are always sent), and the serialised body.\<close>

record request =
  meth :: http_method
  url :: string
  authorization :: "string option"
  data :: "json option"

text \<open>\<^verbatim>\<open>response.ok\<close>: \<^verbatim>\<open>raise_for_status()\<close> raises for 400 \<le> status < 600.\<close>

definition ok :: "response \<Rightarrow> bool" where
  "ok r = (\<not> (400 \<le> status_code r \<and> status_code r < 600))"

text \<open>
  The environment of a run: the local files (\<^verbatim>\<open>json.load(open(path))\<close>), the
  registry (what a request returns or raises, given the requests sent before it),
  Python's \<^verbatim>\<open>str()\<close> of a value that is no string, the scraping of an HTML error page
  (\<^verbatim>\<open>BeautifulSoup\<close>, \<^verbatim>\<open>find_all(class_='exception_value')\<close>, joined), and the
  environment variable GITHUB_SHA.
\<close>

record env =
  load_file :: "string \<Rightarrow> exn + json"
  net :: "request list \<Rightarrow> request \<Rightarrow> exn + response"
  py_str :: "json \<Rightarrow> string"
  exception_values :: "string \<Rightarrow> exn + string"
  GITHUB_SHA :: string

datatype level = DEBUG | INFO | WARNING | ERROR

text \<open>The effects of a run, in order: the requests sent, the calls of \<^verbatim>\<open>logging\<close>,
  and the files written (path and the strings written).\<close>

record world =
  sent :: "request list"
  logged :: "(level \<times> string) list"
  written :: "(string \<times> string list) list"

definition send :: "env \<Rightarrow> request \<Rightarrow> world \<Rightarrow> (exn + response) \<times> world" where
  "send env rq w = (net env (sent w) rq, w\<lparr>sent := sent w @ [rq]\<rparr>)"

definition logging :: "level \<Rightarrow> string \<Rightarrow> world \<Rightarrow> world" where
  "logging lv m w = w\<lparr>logged := logged w @ [(lv, m)]\<rparr>"

text \<open>A value inside an f-string.\<close>

definition format :: "env \<Rightarrow> json \<Rightarrow> string" where
  "format env v = (case v of JStr s \<Rightarrow> s | _ \<Rightarrow> py_str env v)"

definition HOST :: string where
  "HOST = ''https://bio-tools-dev.sdu.dk''"

definition TOOL_API_URL :: string where
  "TOOL_API_URL = HOST @ ''/api/tool/''"

text \<open>The module-level \<^verbatim>\<open>HEADERS\<close> carries no Authorization.\<close>

definition HEADERS :: "string option" where
  "HEADERS = None"

text \<open>The local variables of \<^verbatim>\<open>run_upload\<close>. \<open>payload_dict\<close> and \<open>response\<close> are
  unbound (\<open>None\<close>) until first assigned and keep their value from one iteration of the
  loop to the next.\<close>

record 'ko state =
  tools_ok :: "json list"
  tools_ko :: "'ko list"
  tools_unchanged :: "json list"
  payload_dict :: "json option"
  response :: "response option"
  world :: world

definition unbound :: "string \<Rightarrow> exn" where
  "unbound v = raise UnboundLocalError
     (''cannot access local variable '' @ v @ '' where it is not associated with a value'')"

text \<open>How the process ends: the exit status given to \<^verbatim>\<open>sys.exit\<close>, the end of the
  script, or an exception nobody caught (traceback, exit status 1).\<close>

datatype ending = Finished | SystemExit int | Uncaught exn

fun exit_code :: "ending \<Rightarrow> int" where
  "exit_code Finished = 0"
| "exit_code (SystemExit n) = n"
| "exit_code (Uncaught e) = 1"

text \<open>The command line: \<^verbatim>\<open>--token\<close>, \<^verbatim>\<open>--files\<close>, \<^verbatim>\<open>--deleted\<close> (an absent list is
  as false as an empty one).\<close>

record args =
  token :: string
  files :: "string list"
  deleted :: "string list"

text \<open>\<^verbatim>\<open>os.path.basename(p).split('.')[0]\<close>\<close>

definition basename :: "string \<Rightarrow> string" where
  "basename p = rev (takeWhile (\<lambda>c. c \<noteq> CHR ''/'') (rev p))"

definition biotools_id_of :: "string \<Rightarrow> string" where
  "biotools_id_of deleted_file = takeWhile (\<lambda>c. c \<noteq> CHR ''.'') (basename deleted_file)"

section \<open>gh2biotools2.py\<close>

definition get_headers :: "string \<Rightarrow> string option" where
  "get_headers tok = Some tok"

definition validate_upload_tool2 ::
  "env \<Rightarrow> json \<Rightarrow> string \<Rightarrow> world \<Rightarrow> (exn + bool \<times> string) \<times> world" where
  "validate_upload_tool2 env tool tok w =
     (case send env \<lparr>meth = POST, url = HOST @ ''/api/tool/validate/'',
                      authorization = get_headers tok, data = Some tool\<rparr> w of
        (Inl e, w') \<Rightarrow> (Inl e, w')
      | (Inr r, w') \<Rightarrow> (Inr (ok r, text' r), w'))"

text \<open>The handler of \<^verbatim>\<open>except requests.exceptions.RequestException as e\<close> in
  \<^verbatim>\<open>upload_tool\<close> and \<^verbatim>\<open>update_tool\<close>; any other exception goes on.\<close>

definition except_RequestException ::
  "env \<Rightarrow> string \<Rightarrow> json \<Rightarrow> exn \<Rightarrow> world \<Rightarrow> (exn + bool \<times> string) \<times> world" where
  "except_RequestException env what tool e w =
     (if is_RequestException e then
        (case subscript tool ''biotoolsID'' of
           Inl e' \<Rightarrow> (Inl e', w)
         | Inr tid \<Rightarrow>
             (Inr (False, str e),
              logging ERROR (''Error '' @ what @ '' '' @ format env tid @ '': '' @ str e) w))
      else (Inl e, w))"

definition upload_tool2 ::
  "env \<Rightarrow> json \<Rightarrow> string \<Rightarrow> world \<Rightarrow> (exn + bool \<times> string) \<times> world" where
  "upload_tool2 env tool tok w =
     (case send env \<lparr>meth = POST, url = TOOL_API_URL,
                      authorization = get_headers tok, data = Some tool\<rparr> w of
        (Inl e, w') \<Rightarrow> except_RequestException env ''uploading'' tool e w'
      | (Inr r, w') \<Rightarrow>
          (case subscript tool ''biotoolsID'' of
             Inl e \<Rightarrow> except_RequestException env ''uploading'' tool e w'
           | Inr tid \<Rightarrow>
               (Inr (True, text' r),
                logging INFO (format env tid @ '' added (Status: ''
                               @ py_str env (JInt (status_code r)) @ '')'') w')))"

definition validate_update_tool2 ::
  "env \<Rightarrow> json \<Rightarrow> string \<Rightarrow> world \<Rightarrow> (exn + bool \<times> string) \<times> world" where
  "validate_update_tool2 env tool tok w =
     (case subscript tool ''biotoolsID'' of
        Inl e \<Rightarrow> (Inl e, w)
      | Inr tid \<Rightarrow>
          (case send env \<lparr>meth = PUT, url = HOST @ ''/api/tool/'' @ format env tid @ ''/validate/'',
                          authorization = get_headers tok, data = Some tool\<rparr> w of
             (Inl e, w') \<Rightarrow> (Inl e, w')
           | (Inr r, w') \<Rightarrow> (Inr (ok r, text' r), w')))"

definition update_tool2 ::
  "env \<Rightarrow> json \<Rightarrow> string \<Rightarrow> world \<Rightarrow> (exn + bool \<times> string) \<times> world" where
  "update_tool2 env tool tok w =
     (case subscript tool ''biotoolsID'' of
        Inl e \<Rightarrow> (Inl e, w)
      | Inr tid \<Rightarrow>
          (case send env \<lparr>meth = PUT, url = TOOL_API_URL @ format env tid @ ''/'',
                          authorization = get_headers tok, data = Some tool\<rparr> w of
             (Inl e, w') \<Rightarrow> except_RequestException env ''updating'' tool e w'
           | (Inr r, w') \<Rightarrow>
               (Inr (True, text' r),
                logging INFO (format env tid @ '' updated (Status: ''
                               @ py_str env (JInt (status_code r)) @ '')'') w')))"

text \<open>The three outcomes of \<^verbatim>\<open>delete_tool\<close> are log lines only.\<close>

definition delete_tool2 :: "env \<Rightarrow> string \<Rightarrow> string \<Rightarrow> world \<Rightarrow> exn option \<times> world" where
  "delete_tool2 env tok biotools_id w =
     (case send env \<lparr>meth = DELETE, url = TOOL_API_URL @ biotools_id @ ''/'',
                      authorization = get_headers tok, data = None\<rparr> w of
        (Inl e, w') \<Rightarrow> (Some e, w')
      | (Inr r, w') \<Rightarrow>
          (None,
           if status_code r = 204 then
             logging INFO (''Successfully deleted tool '' @ biotools_id) w'
           else if status_code r = 404 then
             logging WARNING (''Tool '' @ biotools_id
                              @ '' not found on server (maybe already deleted?)'') w'
           else
             logging ERROR (''Failed to delete tool '' @ biotools_id @ '': ''
                            @ py_str env (JInt (status_code r)) @ '' '' @ text' r) w'))"

text \<open>The body of the \<^verbatim>\<open>try\<close> of \<^verbatim>\<open>run_upload\<close>, branch by branch. Each returns
  the exception that left it, if any, and the locals and effects at that point.\<close>

definition changed2 ::
  "env \<Rightarrow> string \<Rightarrow> json \<Rightarrow> json \<Rightarrow> json state \<Rightarrow> exn option \<times> json state" where
  "changed2 env tok tool_id payload s =
     (let w0 = logging INFO (''Tool '' @ format env tool_id @ '' changed, attempting update...'')
                 (world s)
      in case validate_update_tool2 env payload tok w0 of
           (Inl e, w) \<Rightarrow> (Some e, s\<lparr>world := w\<rparr>)
         | (Inr (valid, msg), w) \<Rightarrow>
             if valid then
               (case update_tool2 env payload tok w of
                  (Inl e, w') \<Rightarrow> (Some e, s\<lparr>world := w'\<rparr>)
                | (Inr (success, msg'), w') \<Rightarrow>
                    if success then
                      (None, s\<lparr>tools_ok := tools_ok s @ [tool_id],
                                world := logging INFO (''Tool '' @ format env tool_id
                                           @ '' updated successfully'') w'\<rparr>)
                    else
                      (None, s\<lparr>tools_ko := tools_ko s @ [tool_id],
                                world := logging ERROR (''Update failed for ''
                                           @ format env tool_id @ '': '' @ msg') w'\<rparr>))
             else
               (None, s\<lparr>tools_ko := tools_ko s @ [tool_id],
                         world := logging ERROR (''Validation failed for ''
                                    @ format env tool_id @ '': '' @ msg) w\<rparr>))"

definition existing2 ::
  "env \<Rightarrow> string \<Rightarrow> json \<Rightarrow> json \<Rightarrow> response \<Rightarrow> json state \<Rightarrow> exn option \<times> json state" where
  "existing2 env tok tool_id payload r s =
     (case json_body r of
        None \<Rightarrow> (Some (raise JSONDecodeError ''Expecting value''), s)
      | Some j \<Rightarrow>
          (case remap j of
             Inl e \<Rightarrow> (Some e, s)
           | Inr existing_tool \<Rightarrow>
               if py_eq existing_tool payload then
                 (None, s\<lparr>tools_unchanged := tools_unchanged s @ [tool_id],
                           world := logging DEBUG (''Tool '' @ format env tool_id
                                      @ '' already registered and unchanged'') (world s)\<rparr>)
               else changed2 env tok tool_id payload s))"

definition missing2 ::
  "env \<Rightarrow> string \<Rightarrow> json \<Rightarrow> json \<Rightarrow> json state \<Rightarrow> exn option \<times> json state" where
  "missing2 env tok tool_id payload s =
     (let w0 = logging INFO (''Tool '' @ format env tool_id
                  @ '' not registered, proceeding with upload'') (world s)
      in case validate_upload_tool2 env payload tok w0 of
           (Inl e, w) \<Rightarrow> (Some e, s\<lparr>world := w\<rparr>)
         | (Inr (valid, msg), w) \<Rightarrow>
             if valid then
               (case upload_tool2 env payload tok w of
                  (Inl e, w') \<Rightarrow> (Some e, s\<lparr>world := w'\<rparr>)
                | (Inr (success, msg'), w') \<Rightarrow>
                    if success then (None, s\<lparr>tools_ok := tools_ok s @ [tool_id], world := w'\<rparr>)
                    else
                      (None, s\<lparr>tools_ko := tools_ko s @ [tool_id],
                                world := logging ERROR (''Upload failed for ''
                                           @ format env tool_id @ '': '' @ msg') w'\<rparr>))
             else
               (None, s\<lparr>tools_ko := tools_ko s @ [tool_id],
                         world := logging ERROR (''Validation failed for ''
                                    @ format env tool_id @ '': '' @ msg) w\<rparr>))"

definition get_request2 :: "env \<Rightarrow> json \<Rightarrow> request" where
  "get_request2 env tool_id =
     \<lparr>meth = GET, url = HOST @ ''/api/tool/'' @ format env tool_id @ ''/'',
      authorization = HEADERS, data = None\<rparr>"

definition checked2 ::
  "env \<Rightarrow> string \<Rightarrow> json \<Rightarrow> json \<Rightarrow> json state \<Rightarrow> exn option \<times> json state" where
  "checked2 env tok tool_id payload s =
     (case send env (get_request2 env tool_id) (world s) of
        (Inl e, w) \<Rightarrow> (Some e, s\<lparr>world := w\<rparr>)
      | (Inr r, w) \<Rightarrow>
          (let s' = s\<lparr>response := Some r, world := w\<rparr>
           in if status_code r = 200 then existing2 env tok tool_id payload r s'
              else if status_code r = 404 then missing2 env tok tool_id payload s'
              else
                (None, s'\<lparr>tools_ko := tools_ko s' @ [tool_id],
                           world := logging ERROR (''Error checking tool '' @ format env tool_id
                                      @ '': '' @ py_str env (JInt (status_code r)) @ '' ''
                                      @ text' r) w\<rparr>)))"

definition try_body2 ::
  "env \<Rightarrow> string \<Rightarrow> string \<Rightarrow> json state \<Rightarrow> exn option \<times> json state" where
  "try_body2 env tok biotools_json_file s =
     (let s0 = s\<lparr>world := logging DEBUG (''Processing '' @ biotools_json_file @ ''...'')
                              (world s)\<rparr>
      in case load_file env biotools_json_file of
           Inl e \<Rightarrow> (Some e, s0)
         | Inr j \<Rightarrow>
             (let s1 = s0\<lparr>payload_dict := Some j\<rparr>
              in case remap j of
                   Inl e \<Rightarrow> (Some e, s1)
                 | Inr payload \<Rightarrow>
                     (let s2 = s1\<lparr>payload_dict := Some payload\<rparr>
                      in case get_method payload ''biotoolsID'' JNull of
                           Inl e \<Rightarrow> (Some e, s2)
                         | Inr tool_id \<Rightarrow>
                             if \<not> truthy tool_id then
                               (None, s2\<lparr>tools_ko := tools_ko s2 @ [JStr ''UNKNOWN''],
                                          world := logging ERROR (CHR 0x27 # ''biotoolsID''
                                            @ CHR 0x27 # '' not found in '' @ biotools_json_file)
                                            (world s2)\<rparr>)
                             else checked2 env tok tool_id payload s2)))"

text \<open>\<^verbatim>\<open>messages\<close> of the handler of \<^verbatim>\<open>HTTPError\<close>, which reads the local \<open>response\<close>.\<close>

definition http_error_messages :: "env \<Rightarrow> response option \<Rightarrow> exn + int \<times> string" where
  "http_error_messages env resp =
     (case resp of
        None \<Rightarrow> Inl (unbound ''response'')
      | Some r \<Rightarrow>
          if status_code r = 500 then
            (case exception_values env (text' r) of
               Inl e \<Rightarrow> Inl e
             | Inr messages \<Rightarrow> Inr (status_code r, messages))
          else Inr (status_code r, text' r))"

text \<open>\<^verbatim>\<open>tools_ko.append(payload_dict.get("biotoolsID", "UNKNOWN"))\<close>\<close>

definition append_ko2 :: "json state \<Rightarrow> exn option \<times> json state" where
  "append_ko2 s =
     (case payload_dict s of
        None \<Rightarrow> (Some (unbound ''payload_dict''), s)
      | Some p \<Rightarrow>
          (case get_method p ''biotoolsID'' (JStr ''UNKNOWN'') of
             Inl e \<Rightarrow> (Some e, s)
           | Inr tid \<Rightarrow> (None, s\<lparr>tools_ko := tools_ko s @ [tid]\<rparr>)))"

text \<open>The two \<^verbatim>\<open>except\<close> clauses; an exception raised inside one leaves the loop.\<close>

definition handlers2 :: "env \<Rightarrow> string \<Rightarrow> exn \<Rightarrow> json state \<Rightarrow> exn option \<times> json state" where
  "handlers2 env biotools_json_file e s =
     (if is_HTTPError e then
        (case http_error_messages env (response s) of
           Inl e' \<Rightarrow> (Some e', s)
         | Inr (code, messages) \<Rightarrow>
             append_ko2 (s\<lparr>world := logging ERROR (''HTTP error for '' @ biotools_json_file
                              @ '' (status '' @ py_str env (JInt code) @ ''): '' @ messages)
                              (world s)\<rparr>))
      else
        append_ko2 (s\<lparr>world := logging ERROR (''Unexpected error with '' @ biotools_json_file
                         @ '': '' @ str e) (world s)\<rparr>))"

text \<open>One iteration of the \<^verbatim>\<open>for\<close> loop.\<close>

definition iteration2 :: "env \<Rightarrow> string \<Rightarrow> string \<Rightarrow> json state \<Rightarrow> exn option \<times> json state" where
  "iteration2 env tok biotools_json_file s =
     (case try_body2 env tok biotools_json_file s of
        (None, s') \<Rightarrow> (None, s')
      | (Some e, s') \<Rightarrow> handlers2 env biotools_json_file e s')"

fun loop2 :: "env \<Rightarrow> string \<Rightarrow> string list \<Rightarrow> json state \<Rightarrow> exn option \<times> json state" where
  "loop2 env tok [] s = (None, s)"
| "loop2 env tok (f # fs) s =
     (case iteration2 env tok f s of
        (Some e, s') \<Rightarrow> (Some e, s')
      | (None, s') \<Rightarrow> loop2 env tok fs s')"

definition init_state :: "world \<Rightarrow> 'ko state" where
  "init_state w = \<lparr>tools_ok = [], tools_ko = [], tools_unchanged = [],
                    payload_dict = None, response = None, world = w\<rparr>"

definition py_len :: "env \<Rightarrow> 'a list \<Rightarrow> string" where
  "py_len env xs = py_str env (JInt (int (length xs)))"

definition summary2 :: "env \<Rightarrow> json state \<Rightarrow> world" where
  "summary2 env s =
     logging INFO ([CHR 0xE2, CHR 0x9A, CHR 0xA0, CHR 0xEF, CHR 0xB8, CHR 0x8F] @ '' Unchanged: ''
         @ py_len env (tools_unchanged s) @ '': '' @ py_str env (JArr (tools_unchanged s)))
      (logging INFO ([CHR 0xE2, CHR 0x9D, CHR 0x8C] @ '' Failed: ''
         @ py_len env (tools_ko s) @ '': '' @ py_str env (JArr (tools_ko s)))
      (logging INFO ([CHR 0xE2, CHR 0x9C, CHR 0x85] @ '' Tools OK: ''
         @ py_len env (tools_ok s) @ '': '' @ py_str env (JArr (tools_ok s)))
      (logging INFO ''Summary:'' (world s))))"

definition run_upload2 :: "env \<Rightarrow> string \<Rightarrow> string list \<Rightarrow> world \<Rightarrow> ending \<times> json state" where
  "run_upload2 env tok fs w =
     (case loop2 env tok fs (init_state w) of
        (Some e, s) \<Rightarrow> (Uncaught e, s)
      | (None, s) \<Rightarrow>
          (let s' = s\<lparr>world := summary2 env s\<rparr>
           in if tools_ko s' \<noteq> [] then (SystemExit 1, s') else (Finished, s')))"

fun deleted_loop2 :: "env \<Rightarrow> string \<Rightarrow> string list \<Rightarrow> world \<Rightarrow> ending \<times> world" where
  "deleted_loop2 env tok [] w = (Finished, w)"
| "deleted_loop2 env tok (deleted_file # ds) w =
     (let biotools_id = biotools_id_of deleted_file
      in case delete_tool2 env tok biotools_id
                (logging INFO (''Deleting tool '' @ biotools_id @ ''...'') w) of
           (Some e, w') \<Rightarrow> (Uncaught e, w')
         | (None, w') \<Rightarrow> deleted_loop2 env tok ds w')"

text \<open>The script. Besides how it ends and its effects, the result shows the three lists
  of \<^verbatim>\<open>run_upload\<close> as they were when it ended (\<open>None\<close> when it was not called).\<close>

definition main2 :: "env \<Rightarrow> args \<Rightarrow> world \<Rightarrow> ending \<times> json state option \<times> world" where
  "main2 env a w =
     (if files a \<noteq> [] then
        (case run_upload2 env (token a) (files a) w of
           (Finished, s) \<Rightarrow>
             (case deleted_loop2 env (token a) (deleted a) (world s) of
                (e, w') \<Rightarrow> (e, Some s, w'))
         | (e, s) \<Rightarrow> (e, Some s, world s))
      else
        (case deleted_loop2 env (token a) (deleted a) w of
           (e, w') \<Rightarrow> (e, None, w')))"

section \<open>gh2biotools3.py\<close>

text \<open>Every function copies \<^verbatim>\<open>HEADERS\<close> and adds the Authorization header;
  \<^verbatim>\<open>run_upload\<close> adds it to \<^verbatim>\<open>HEADERS\<close> itself.\<close>

definition validate_tool3 ::
  "env \<Rightarrow> json \<Rightarrow> string \<Rightarrow> world \<Rightarrow> (exn + bool \<times> string) \<times> world" where
  "validate_tool3 env tool tok w =
     (case send env \<lparr>meth = POST, url = HOST @ ''/api/tool/validate/'',
                      authorization = Some tok, data = Some tool\<rparr> w of
        (Inl e, w') \<Rightarrow> (Inl e, w')
      | (Inr r, w') \<Rightarrow> (if ok r then (Inr (True, text' r), w') else (Inr (False, text' r), w')))"

text \<open>The handlers \<^verbatim>\<open>except HTTPError as e\<close> and \<^verbatim>\<open>except RequestException as e\<close>
  of \<^verbatim>\<open>upload_tool\<close> and \<^verbatim>\<open>update_tool\<close>.\<close>

definition except_HTTPError3 ::
  "env \<Rightarrow> string \<Rightarrow> json \<Rightarrow> exn \<Rightarrow> world \<Rightarrow> (exn + bool \<times> string) \<times> world" where
  "except_HTTPError3 env what tool e w =
     (if is_HTTPError e then
        (case subscript tool ''biotoolsID'' of
           Inl e' \<Rightarrow> (Inl e', w)
         | Inr tid \<Rightarrow>
             (case exn_response e of
                None \<Rightarrow> (Inl (raise AttributeError ''NoneType object has no attribute status_code''), w)
              | Some r \<Rightarrow>
                  (Inr (False, text' r),
                   logging ERROR (''Error '' @ what @ '' '' @ format env tid @ '': ''
                     @ py_str env (JInt (status_code r)) @ '' '' @ text' r) w)))
      else except_RequestException env what tool e w)"

definition upload_tool3 ::
  "env \<Rightarrow> json \<Rightarrow> string \<Rightarrow> world \<Rightarrow> (exn + bool \<times> string) \<times> world" where
  "upload_tool3 env tool tok w =
     (case send env \<lparr>meth = POST, url = TOOL_API_URL,
                      authorization = Some tok, data = Some tool\<rparr> w of
        (Inl e, w') \<Rightarrow> except_HTTPError3 env ''uploading'' tool e w'
      | (Inr r, w') \<Rightarrow>
          (case subscript tool ''biotoolsID'' of
             Inl e \<Rightarrow> except_HTTPError3 env ''uploading'' tool e w'
           | Inr tid \<Rightarrow>
               (Inr (True, text' r),
                logging INFO (format env tid @ '' added (Status: ''
                               @ py_str env (JInt (status_code r)) @ '')'') w')))"

definition update_tool3 ::
  "env \<Rightarrow> json \<Rightarrow> string \<Rightarrow> world \<Rightarrow> (exn + bool \<times> string) \<times> world" where
  "update_tool3 env tool tok w =
     (case subscript tool ''biotoolsID'' of
        Inl e \<Rightarrow> (Inl e, w)
      | Inr tid \<Rightarrow>
          (case send env \<lparr>meth = PUT, url = TOOL_API_URL @ format env tid @ ''/'',
                          authorization = Some tok, data = Some tool\<rparr> w of
             (Inl e, w') \<Rightarrow> except_HTTPError3 env ''updating'' tool e w'
           | (Inr r, w') \<Rightarrow>
               (Inr (True, text' r),
                logging INFO (format env tid @ '' updated (Status: ''
                               @ py_str env (JInt (status_code r)) @ '')'') w')))"

definition delete_tool3 :: "env \<Rightarrow> string \<Rightarrow> string \<Rightarrow> world \<Rightarrow> exn option \<times> world" where
  "delete_tool3 env tok biotools_id w =
     (case send env \<lparr>meth = DELETE, url = TOOL_API_URL @ biotools_id @ ''/'',
                      authorization = Some tok, data = None\<rparr> w of
        (Inl e, w') \<Rightarrow> (Some e, w')
      | (Inr r, w') \<Rightarrow>
          (None,
           if status_code r = 204 then
             logging INFO (''Successfully deleted tool '' @ biotools_id) w'
           else if status_code r = 404 then
             logging WARNING (''Tool '' @ biotools_id
                              @ '' not found on server (maybe already deleted?)'') w'
           else
             logging ERROR (''Failed to delete tool '' @ biotools_id @ '': ''
                            @ py_str env (JInt (status_code r)) @ '' '' @ text' r) w'))"

text \<open>Here a failure is a pair of the tool id and a message.\<close>

definition changed3 ::
  "env \<Rightarrow> string \<Rightarrow> json \<Rightarrow> json \<Rightarrow> (json \<times> string) state
     \<Rightarrow> exn option \<times> (json \<times> string) state" where
  "changed3 env tok tool_id payload s =
     (let w0 = logging INFO (''Tool '' @ format env tool_id
                  @ '' already registered but changed, attempting update...'') (world s)
      in case update_tool3 env payload tok w0 of
           (Inl e, w) \<Rightarrow> (Some e, s\<lparr>world := w\<rparr>)
         | (Inr (success, message), w) \<Rightarrow>
             if success then (None, s\<lparr>tools_ok := tools_ok s @ [tool_id], world := w\<rparr>)
             else
               (None, s\<lparr>tools_ko := tools_ko s @ [(tool_id, message)],
                         world := logging ERROR (''Update failed for '' @ format env tool_id
                                    @ '': '' @ message) w\<rparr>))"

definition existing3 ::
  "env \<Rightarrow> string \<Rightarrow> json \<Rightarrow> json \<Rightarrow> response \<Rightarrow> (json \<times> string) state
     \<Rightarrow> exn option \<times> (json \<times> string) state" where
  "existing3 env tok tool_id payload r s =
     (case json_body r of
        None \<Rightarrow> (Some (raise JSONDecodeError ''Expecting value''), s)
      | Some j \<Rightarrow>
          (case remap j of
             Inl e \<Rightarrow> (Some e, s)
           | Inr existing_tool \<Rightarrow>
               if py_eq existing_tool payload then
                 (None, s\<lparr>tools_unchanged := tools_unchanged s @ [tool_id],
                           world := logging DEBUG (''Tool '' @ format env tool_id
                                      @ '' already registered and unchanged'') (world s)\<rparr>)
               else changed3 env tok tool_id payload s))"

definition missing3 ::
  "env \<Rightarrow> string \<Rightarrow> json \<Rightarrow> json \<Rightarrow> (json \<times> string) state
     \<Rightarrow> exn option \<times> (json \<times> string) state" where
  "missing3 env tok tool_id payload s =
     (let w0 = logging INFO (''Tool '' @ format env tool_id
                  @ '' not registered, proceeding with upload'') (world s)
      in case validate_tool3 env payload tok w0 of
           (Inl e, w) \<Rightarrow> (Some e, s\<lparr>world := w\<rparr>)
         | (Inr (valid, validation_message), w) \<Rightarrow>
             if valid then
               (case upload_tool3 env payload tok w of
                  (Inl e, w') \<Rightarrow> (Some e, s\<lparr>world := w'\<rparr>)
                | (Inr (success, upload_message), w') \<Rightarrow>
                    if success then (None, s\<lparr>tools_ok := tools_ok s @ [tool_id], world := w'\<rparr>)
                    else
                      (None, s\<lparr>tools_ko := tools_ko s @ [(tool_id, upload_message)],
                                world := logging ERROR (''Upload failed for ''
                                           @ format env tool_id @ '': '' @ upload_message) w'\<rparr>))
             else
               (None, s\<lparr>tools_ko := tools_ko s @ [(tool_id, validation_message)],
                         world := logging ERROR (''Validation failed for ''
                                    @ format env tool_id @ '': '' @ validation_message) w\<rparr>))"

definition get_request3 :: "string \<Rightarrow> string \<Rightarrow> request" where
  "get_request3 tok tid =
     \<lparr>meth = GET, url = HOST @ ''/api/tool/'' @ tid @ ''/'',
      authorization = Some tok, data = None\<rparr>"

text \<open>\<^verbatim>\<open>HOST + '/api/tool/' + tool_id + '/'\<close> raises TypeError unless the id is a string.\<close>

definition checked3 ::
  "env \<Rightarrow> string \<Rightarrow> json \<Rightarrow> json \<Rightarrow> (json \<times> string) state
     \<Rightarrow> exn option \<times> (json \<times> string) state" where
  "checked3 env tok tool_id payload s =
     (case tool_id of
        JStr tid \<Rightarrow>
          (case send env (get_request3 tok tid) (world s) of
             (Inl e, w) \<Rightarrow> (Some e, s\<lparr>world := w\<rparr>)
           | (Inr r, w) \<Rightarrow>
               (let s' = s\<lparr>response := Some r, world := w\<rparr>
                in if status_code r = 200 then existing3 env tok tool_id payload r s'
                   else if status_code r = 404 then missing3 env tok tool_id payload s'
                   else
                     (None, s'\<lparr>tools_ko := tools_ko s' @ [(tool_id, text' r)],
                                world := logging ERROR (''Error checking tool ''
                                  @ format env tool_id @ '': ''
                                  @ py_str env (JInt (status_code r)) @ '' '' @ text' r) w\<rparr>)))
      | _ \<Rightarrow> (Some (raise TypeError ''can only concatenate str to str''), s))"

definition try_body3 ::
  "env \<Rightarrow> string \<Rightarrow> string \<Rightarrow> (json \<times> string) state
     \<Rightarrow> exn option \<times> (json \<times> string) state" where
  "try_body3 env tok biotools_json_file s =
     (let s0 = s\<lparr>world := logging DEBUG (''uploading '' @ biotools_json_file @ ''...'')
                              (world s)\<rparr>
      in case load_file env biotools_json_file of
           Inl e \<Rightarrow> (Some e, s0)
         | Inr j \<Rightarrow>
             (let s1 = s0\<lparr>payload_dict := Some j\<rparr>
              in case remap j of
                   Inl e \<Rightarrow> (Some e, s1)
                 | Inr payload \<Rightarrow>
                     (let s2 = s1\<lparr>payload_dict := Some payload\<rparr>
                      in case get_method payload ''biotoolsID'' JNull of
                           Inl e \<Rightarrow> (Some e, s2)
                         | Inr tool_id \<Rightarrow>
                             if \<not> truthy tool_id then
                               (None, s2\<lparr>tools_ko := tools_ko s2
                                            @ [(JStr ''UNKNOWN'', ''biotoolsID not found'')],
                                          world := logging ERROR (CHR 0x27 # ''biotoolsID''
                                            @ CHR 0x27 # '' not found in '' @ biotools_json_file)
                                            (world s2)\<rparr>)
                             else checked3 env tok tool_id payload s2)))"

text \<open>\<^verbatim>\<open>tools_ko.append((payload_dict["biotoolsID"], message))\<close>\<close>

definition append_ko3 ::
  "string \<Rightarrow> (json \<times> string) state \<Rightarrow> exn option \<times> (json \<times> string) state" where
  "append_ko3 message s =
     (case payload_dict s of
        None \<Rightarrow> (Some (unbound ''payload_dict''), s)
      | Some p \<Rightarrow>
          (case subscript p ''biotoolsID'' of
             Inl e \<Rightarrow> (Some e, s)
           | Inr tid \<Rightarrow> (None, s\<lparr>tools_ko := tools_ko s @ [(tid, message)]\<rparr>)))"

definition handlers3 ::
  "env \<Rightarrow> string \<Rightarrow> exn \<Rightarrow> (json \<times> string) state
     \<Rightarrow> exn option \<times> (json \<times> string) state" where
  "handlers3 env biotools_json_file e s =
     (if is_HTTPError e then
        (case http_error_messages env (response s) of
           Inl e' \<Rightarrow> (Some e', s)
         | Inr (code, messages) \<Rightarrow>
             append_ko3 messages
               (s\<lparr>world := logging ERROR (''error while uploading '' @ biotools_json_file
                     @ '' (status '' @ py_str env (JInt code) @ ''): '' @ messages)
                     (world s)\<rparr>))
      else
        append_ko3 (str e)
          (s\<lparr>world := logging ERROR (''Unexpected error with '' @ biotools_json_file
                @ '': '' @ str e) (world s)\<rparr>))"

definition iteration3 ::
  "env \<Rightarrow> string \<Rightarrow> string \<Rightarrow> (json \<times> string) state
     \<Rightarrow> exn option \<times> (json \<times> string) state" where
  "iteration3 env tok biotools_json_file s =
     (case try_body3 env tok biotools_json_file s of
        (None, s') \<Rightarrow> (None, s')
      | (Some e, s') \<Rightarrow> handlers3 env biotools_json_file e s')"

fun loop3 ::
  "env \<Rightarrow> string \<Rightarrow> string list \<Rightarrow> (json \<times> string) state
     \<Rightarrow> exn option \<times> (json \<times> string) state" where
  "loop3 env tok [] s = (None, s)"
| "loop3 env tok (f # fs) s =
     (case iteration3 env tok f s of
        (Some e, s') \<Rightarrow> (Some e, s')
      | (None, s') \<Rightarrow> loop3 env tok fs s')"

definition summary3 :: "env \<Rightarrow> (json \<times> string) state \<Rightarrow> world" where
  "summary3 env s =
     logging INFO (''Tools unchanged: '' @ py_len env (tools_unchanged s))
      (logging INFO (''Tools KO: '' @ py_len env (tools_ko s))
      (logging INFO (''Tools OK: '' @ py_len env (tools_ok s))
      (logging INFO ''Tools upload finished'' (world s))))"

text \<open>This \<^verbatim>\<open>run_upload\<close> ends by falling off its end: it returns \<^verbatim>\<open>None\<close>.\<close>

definition run_upload3 ::
  "env \<Rightarrow> string \<Rightarrow> string list \<Rightarrow> world \<Rightarrow> ending \<times> (json \<times> string) state" where
  "run_upload3 env tok fs w =
     (case loop3 env tok fs (init_state w) of
        (Some e, s) \<Rightarrow> (Uncaught e, s)
      | (None, s) \<Rightarrow> (Finished, s\<lparr>world := summary3 env s\<rparr>))"

fun deleted_loop3 :: "env \<Rightarrow> string \<Rightarrow> string list \<Rightarrow> world \<Rightarrow> ending \<times> world" where
  "deleted_loop3 env tok [] w = (Finished, w)"
| "deleted_loop3 env tok (deleted_file # ds) w =
     (let biotools_id = biotools_id_of deleted_file
      in case delete_tool3 env tok biotools_id
                (logging INFO (''Deleting tool '' @ biotools_id @ ''...'') w) of
           (Some e, w') \<Rightarrow> (Uncaught e, w')
         | (None, w') \<Rightarrow> deleted_loop3 env tok ds w')"

text \<open>\<^verbatim>\<open>error_msg.strip().replace('\n', ' ')[:300]\<close>; \<open>take\<close> counts the characters of
  the model's strings.\<close>

definition is_space :: "char \<Rightarrow> bool" where
  "is_space c = (c \<in> set [CHR '' '', CHR 0x09, CHR 0x0A, CHR 0x0B, CHR 0x0C, CHR 0x0D])"

definition strip :: "string \<Rightarrow> string" where
  "strip m = rev (dropWhile is_space (rev (dropWhile is_space m)))"

definition short_msg :: "string \<Rightarrow> string" where
  "short_msg error_msg =
     take 300 (map (\<lambda>c. if c = CHR 0x0A then CHR '' '' else c) (strip error_msg))"

text \<open>What the script writes to \<^verbatim>\<open>upload_failure_report.txt\<close>, one string for each
  \<^verbatim>\<open>report.write\<close>.\<close>

definition report_lines :: "env \<Rightarrow> (json \<times> string) list \<Rightarrow> string list" where
  "report_lines env ko =
     [[CHR 0xF0, CHR 0x9F, CHR 0x9A, CHR 0xA8]
        @ '' The following tools failed to upload, update, or delete:'' @ [CHR 0x0A, CHR 0x0A]]
     @ map (\<lambda>(tool_id, error_msg).
              ''- **'' @ format env tool_id @ ''**: '' @ short_msg error_msg @ [CHR 0x0A]) ko
     @ [CHR 0x0A # ''---'' @ [CHR 0x0A],
        ''- '' @ [CHR 0xF0, CHR 0x9F, CHR 0x94, CHR 0x81] @ '' Git commit: `''
          @ GITHUB_SHA env @ ''`'' @ [CHR 0x0A]]"

text \<open>
  The name \<^verbatim>\<open>tools_ko\<close> at module level, where the script reads it after the two loops.
  The module binds the imports, \<^verbatim>\<open>HEADERS\<close>, \<^verbatim>\<open>HOST\<close>, \<^verbatim>\<open>TOOL_API_URL\<close>,
  \<^verbatim>\<open>VALIDATE_API_URL\<close>, \<^verbatim>\<open>GITHUB_SHA\<close>, the six functions, \<^verbatim>\<open>parser\<close>, \<^verbatim>\<open>args\<close>,
  \<^verbatim>\<open>deleted_file\<close> and \<^verbatim>\<open>biotools_id\<close>; \<^verbatim>\<open>tools_ko\<close> is a local of \<^verbatim>\<open>run_upload\<close>,
  which returns nothing. So the lookup raises NameError.
\<close>

definition module_tools_ko :: "exn + (json \<times> string) list" where
  "module_tools_ko = Inl (raise NameError ''name tools_ko is not defined'')"

definition write_report :: "env \<Rightarrow> world \<Rightarrow> ending \<times> world" where
  "write_report env w =
     (case module_tools_ko of
        Inl e \<Rightarrow> (Uncaught e, w)
      | Inr ko \<Rightarrow>
          if ko \<noteq> [] then
            (Finished, w\<lparr>written := written w
                           @ [(''upload_failure_report.txt'', report_lines env ko)]\<rparr>)
          else (Finished, w))"

definition main3 ::
  "env \<Rightarrow> args \<Rightarrow> world \<Rightarrow> ending \<times> (json \<times> string) state option \<times> world" where
  "main3 env a w =
     (case (if files a \<noteq> [] then
              (case run_upload3 env (token a) (files a) w of (e, s) \<Rightarrow> (e, Some s, world s))
            else (Finished, None, w)) of
        (Finished, rep, w1) \<Rightarrow>
          (case deleted_loop3 env (token a) (deleted a) w1 of
             (Finished, w2) \<Rightarrow> (case write_report env w2 of (e, w3) \<Rightarrow> (e, rep, w3))
           | (e, w2) \<Rightarrow> (e, rep, w2))
      | (e, rep, w1) \<Rightarrow> (e, rep, w1))"

section \<open>biocontainers-importer.py\<close>

text \<open>
  The file system, by what the importer does to it: the directories that exist and the
  document each file holds (\<^verbatim>\<open>yaml.dump(value, f)\<close> writes one document). Paths are the
  strings the script builds. What the operating system may refuse for reasons of its
  own (permissions, a full disk) is \<open>os_error\<close>.
\<close>

datatype fs_op = Makedirs string | OpenWrite string

record fs =
  dirs :: "string set"
  contents :: "string \<Rightarrow> json option"

text \<open>\<open>get_text\<close> is \<^verbatim>\<open>requests.get(url, stream=True)\<close> followed by \<^verbatim>\<open>r.text\<close> (the
  status of the response is not looked at); \<open>safe_load\<close> is \<^verbatim>\<open>yaml.safe_load\<close>, the keys
  of a mapping being the tool ids as the f-string prints them.\<close>

record imp_env =
  get_text :: "string \<Rightarrow> exn + string"
  safe_load :: "string \<Rightarrow> exn + json"
  os_error :: "fs_op \<Rightarrow> exn option"

text \<open>\<^verbatim>\<open>os.path.dirname\<close> of posixpath.\<close>

definition dirname :: "string \<Rightarrow> string" where
  "dirname p =
     (let head = rev (dropWhile (\<lambda>c. c \<noteq> CHR ''/'') (rev p))
      in if head \<noteq> [] \<and> \<not> list_all (\<lambda>c. c = CHR ''/'') head
         then rev (dropWhile (\<lambda>c. c = CHR ''/'') (rev head))
         else head)"

text \<open>The directories above a path: its non-empty prefixes that end before a slash.\<close>

fun prefixes_at_sep :: "string \<Rightarrow> string \<Rightarrow> string list" where
  "prefixes_at_sep acc [] = []"
| "prefixes_at_sep acc (c # cs) =
     (if c = CHR ''/'' \<and> acc \<noteq> [] then [acc] else []) @ prefixes_at_sep (acc @ [c]) cs"

definition ancestors :: "string \<Rightarrow> string list" where
  "ancestors name = prefixes_at_sep [] name"

text \<open>\<^verbatim>\<open>os.makedirs(name, exist_ok=True)\<close>: the directory and those above it exist
  afterwards; it fails where a file is in the way.\<close>

definition makedirs :: "imp_env \<Rightarrow> string \<Rightarrow> fs \<Rightarrow> exn + fs" where
  "makedirs ienv name f =
     (case os_error ienv (Makedirs name) of
        Some e \<Rightarrow> Inl e
      | None \<Rightarrow>
          if name = [] then Inl (raise OSError ''No such file or directory'')
          else if list_ex (\<lambda>d. contents f d \<noteq> None) (name # ancestors name)
            then Inl (raise OSError ''File exists or not a directory'')
          else Inr (f\<lparr>dirs := dirs f \<union> set (name # ancestors name)\<rparr>))"

text \<open>\<^verbatim>\<open>with open(path, "w") as f: yaml.dump(value, f)\<close>: the file is created or
  truncated, then holds the document.\<close>

definition open_w :: "imp_env \<Rightarrow> string \<Rightarrow> json \<Rightarrow> fs \<Rightarrow> exn + fs" where
  "open_w ienv path doc f =
     (case os_error ienv (OpenWrite path) of
        Some e \<Rightarrow> Inl e
      | None \<Rightarrow>
          if path \<in> dirs f then Inl (raise OSError ''Is a directory'')
          else if dirname path \<noteq> [] \<and> dirname path \<notin> dirs f
            then Inl (raise OSError ''No such file or directory'')
          else Inr (f\<lparr>contents := (contents f)(path \<mapsto> doc)\<rparr>))"

definition tool_annotation_yaml :: "string \<Rightarrow> string \<Rightarrow> string" where
  "tool_annotation_yaml content_data_path key =
     content_data_path @ ''/'' @ key @ ''/'' @ key @ ''.biocontainers.yaml''"

text \<open>The loop over \<^verbatim>\<open>annotations.items()\<close>.\<close>

fun write_annotations ::
  "imp_env \<Rightarrow> string \<Rightarrow> (string \<times> json) list \<Rightarrow> fs \<Rightarrow> exn option \<times> fs" where
  "write_annotations ienv content_data_path [] f = (None, f)"
| "write_annotations ienv content_data_path ((key, val) # rest) f =
     (case makedirs ienv (dirname (tool_annotation_yaml content_data_path key)) f of
        Inl e \<Rightarrow> (Some e, f)
      | Inr f1 \<Rightarrow>
          (case open_w ienv (tool_annotation_yaml content_data_path key) val f1 of
             Inl e \<Rightarrow> (Some e, f1)
           | Inr f2 \<Rightarrow> write_annotations ienv content_data_path rest f2))"

definition import_biocontainers_annotations ::
  "imp_env \<Rightarrow> string \<Rightarrow> string \<Rightarrow> fs \<Rightarrow> exn option \<times> fs" where
  "import_biocontainers_annotations ienv url' content_data_path f =
     (case get_text ienv url' of
        Inl e \<Rightarrow> (Some e, f)
      | Inr body \<Rightarrow>
          (case safe_load ienv body of
             Inl e \<Rightarrow> (Some e, f)
           | Inr annotations \<Rightarrow>
               (case annotations of
                  JObj kvs \<Rightarrow> write_annotations ienv content_data_path kvs f
                | _ \<Rightarrow> (Some (raise AttributeError ''object has no attribute items''), f))))"

section \<open>Properties\<close>

subsection \<open>Vocabulary\<close>

text \<open>How one iteration of the loop changed the three result lists: from the lists of
  \<open>s\<close> to those of \<open>s'\<close>, one entry was appended to one list and the other two are
  as they were.\<close>

definition counted_failed :: "'ko state \<Rightarrow> 'ko state \<Rightarrow> 'ko \<Rightarrow> bool" where
  "counted_failed s s' x =
     (tools_ko s' = tools_ko s @ [x] \<and> tools_ok s' = tools_ok s
      \<and> tools_unchanged s' = tools_unchanged s)"

definition counted_ok :: "'ko state \<Rightarrow> 'ko state \<Rightarrow> json \<Rightarrow> bool" where
  "counted_ok s s' x =
     (tools_ok s' = tools_ok s @ [x] \<and> tools_ko s' = tools_ko s
      \<and> tools_unchanged s' = tools_unchanged s)"

definition counted_unchanged :: "'ko state \<Rightarrow> 'ko state \<Rightarrow> json \<Rightarrow> bool" where
  "counted_unchanged s s' x =
     (tools_unchanged s' = tools_unchanged s @ [x] \<and> tools_ok s' = tools_ok s
      \<and> tools_ko s' = tools_ko s)"

definition lists_same :: "'ko state \<Rightarrow> 'ko state \<Rightarrow> bool" where
  "lists_same s s' =
     (tools_ok s' = tools_ok s \<and> tools_ko s' = tools_ko s
      \<and> tools_unchanged s' = tools_unchanged s)"

definition one_counted :: "'ko state \<Rightarrow> 'ko state \<Rightarrow> bool" where
  "one_counted s s' =
     ((\<exists>x. counted_ok s s' x) \<or> (\<exists>x. counted_failed s s' x) \<or> (\<exists>x. counted_unchanged s s' x))"

text \<open>The result of a \<^verbatim>\<open>try\<close> body: left normally, it has counted the file once;
  left by an exception, it has not touched the lists.\<close>

definition body_counts :: "'ko state \<Rightarrow> exn option \<times> 'ko state \<Rightarrow> bool" where
  "body_counts s res = (case res of (None, s') \<Rightarrow> one_counted s s' | (Some e, s') \<Rightarrow> lists_same s s')"

text \<open>The file \<open>f\<close> holds a record whose normalized form is \<open>payload\<close> and whose
  \<^verbatim>\<open>biotoolsID\<close> is the non-empty \<open>tool_id\<close>.\<close>

definition local_record :: "env \<Rightarrow> string \<Rightarrow> json \<Rightarrow> json \<Rightarrow> bool" where
  "local_record env f payload tool_id =
     (\<exists>j. load_file env f = Inr j \<and> remap j = Inr payload
          \<and> get_method payload ''biotoolsID'' JNull = Inr tool_id \<and> truthy tool_id)"

text \<open>The response \<open>r\<close> has status 200 and a body whose normalized form is
  \<open>existing_tool\<close>.\<close>

definition remote_record :: "response \<Rightarrow> json \<Rightarrow> bool" where
  "remote_record r existing_tool =
     (status_code r = 200 \<and> (\<exists>j. json_body r = Some j \<and> remap j = Inr existing_tool))"

text \<open>A parsed value: the keys of every dict are distinct.\<close>

fun wf_json :: "json \<Rightarrow> bool" where
  "wf_json (JObj kvs) = (distinct (map fst kvs) \<and> list_all (\<lambda>(k, v). wf_json v) kvs)"
| "wf_json (JArr xs) = list_all wf_json xs"
| "wf_json v = True"

text \<open>The requests the scripts build, by what they are for. Every request after the
  GET carries the token.\<close>

definition delete_request :: "string \<Rightarrow> string \<Rightarrow> request" where
  "delete_request tok biotools_id =
     \<lparr>meth = DELETE, url = TOOL_API_URL @ biotools_id @ ''/'',
      authorization = Some tok, data = None\<rparr>"

definition validate_request :: "string \<Rightarrow> json \<Rightarrow> request" where
  "validate_request tok tool =
     \<lparr>meth = POST, url = HOST @ ''/api/tool/validate/'', authorization = Some tok,
      data = Some tool\<rparr>"

definition create_request :: "string \<Rightarrow> json \<Rightarrow> request" where
  "create_request tok tool =
     \<lparr>meth = POST, url = TOOL_API_URL, authorization = Some tok, data = Some tool\<rparr>"

definition validate_update_request :: "env \<Rightarrow> string \<Rightarrow> json \<Rightarrow> json \<Rightarrow> request" where
  "validate_update_request env tok tool_id tool =
     \<lparr>meth = PUT, url = HOST @ ''/api/tool/'' @ format env tool_id @ ''/validate/'',
      authorization = Some tok, data = Some tool\<rparr>"

definition update_request :: "env \<Rightarrow> string \<Rightarrow> json \<Rightarrow> json \<Rightarrow> request" where
  "update_request env tok tool_id tool =
     \<lparr>meth = PUT, url = TOOL_API_URL @ format env tool_id @ ''/'',
      authorization = Some tok, data = Some tool\<rparr>"

text \<open>The level at which \<^verbatim>\<open>delete_tool\<close> logs a status.\<close>

definition delete_level :: "int \<Rightarrow> level" where
  "delete_level code = (if code = 204 then INFO else if code = 404 then WARNING else ERROR)"

text \<open>Every DELETE is answered with some response: none raises.\<close>

definition deletes_answered :: "env \<Rightarrow> bool" where
  "deletes_answered env = (\<forall>h rq. meth rq = DELETE \<longrightarrow> (\<exists>r. net env h rq = Inr r))"

text \<open>What became of a request: answered with an ok status, or not answered at all.\<close>

definition validated :: "exn + response \<Rightarrow> bool" where
  "validated v = (case v of Inl e \<Rightarrow> False | Inr rv \<Rightarrow> ok rv)"

definition answered_ok :: "exn + response \<Rightarrow> bool" where
  "answered_ok u = (case u of Inl e \<Rightarrow> False | Inr ru \<Rightarrow> ok ru)"

definition raised :: "exn + response \<Rightarrow> bool" where
  "raised u = (case u of Inl e \<Rightarrow> True | Inr ru \<Rightarrow> False)"

subsection \<open>Concrete runs\<close>

text \<open>Environments for concrete runs: one local record for every path, a registry
  given by its answers.\<close>

definition respond :: "int \<Rightarrow> string \<Rightarrow> json option \<Rightarrow> exn + response" where
  "respond c t j = Inr \<lparr>status_code = c, text' = t, json_body = j\<rparr>"

definition env_of :: "json \<Rightarrow> (request list \<Rightarrow> request \<Rightarrow> exn + response) \<Rightarrow> env" where
  "env_of j n = \<lparr>load_file = (\<lambda>p. Inr j), net = n, py_str = (\<lambda>v. ''?''),
                 exception_values = Inr, GITHUB_SHA = ''unknown''\<rparr>"

definition w0 :: world where
  "w0 = \<lparr>sent = [], logged = [], written = []\<rparr>"

text \<open>A local record, the same record as the registry returns it (other order of
  keys, other \<^verbatim>\<open>term\<close>), and an older version of it.\<close>

definition tool_X :: json where
  "tool_X = JObj [(''biotoolsID'', JStr ''X''), (''name'', JStr ''Tool X''),
     (''topic'', JArr [JObj [(''uri'', JStr ''http://edamontology.org/topic_0080''),
                            (''term'', JStr ''Sequence analysis'')]])]"

definition remote_X :: json where
  "remote_X = JObj [(''name'', JStr ''Tool X''),
     (''topic'', JArr [JObj [(''term'', JStr ''Sequences''),
                            (''uri'', JStr ''http://edamontology.org/topic_0080'')]]),
     (''biotoolsID'', JStr ''X'')]"

definition older_X :: json where
  "older_X = JObj [(''biotoolsID'', JStr ''X''), (''name'', JStr ''Tool X, old name'')]"

text \<open>A record with an empty id, and a registry nobody reaches.\<close>

definition env_no_id :: env where
  "env_no_id = env_of (JObj [(''name'', JStr ''Tool X''), (''biotoolsID'', JStr '''')])
                      (\<lambda>h rq. Inl (raise RequestException ''unreachable''))"

text \<open>The registry holds the record unchanged.\<close>

definition env_unchanged :: env where
  "env_unchanged = env_of tool_X (\<lambda>h rq. respond 200 ''{}'' (Some remote_X))"

text \<open>Every request is answered with the given status.\<close>

definition env_delete :: "int \<Rightarrow> env" where
  "env_delete code = env_of tool_X (\<lambda>h rq. respond code ''Internal Server Error'' None)"

text \<open>The record is unchanged; every DELETE is answered with 500.\<close>

definition env_sync :: env where
  "env_sync = env_of tool_X
     (\<lambda>h rq. if meth rq = DELETE then respond 500 ''Internal Server Error'' None
              else respond 200 ''{}'' (Some remote_X))"

definition args_sync :: args where
  "args_sync = \<lparr>token = ''t'', files = [''data/X/X.biotools.json''],
                 deleted = [''data/Y/Y.biotools.json'']\<rparr>"

text \<open>The tool is not registered; its validation is rejected, or passes and the
  creation is answered with 201.\<close>

definition env_invalid :: env where
  "env_invalid = env_of tool_X
     (\<lambda>h rq. if meth rq = GET then respond 404 ''Not found'' None
              else respond 400 ''name: too long'' None)"

definition env_new :: env where
  "env_new = env_of tool_X
     (\<lambda>h rq. if meth rq = GET then respond 404 ''Not found'' None
              else if url rq = HOST @ ''/api/tool/validate/'' then respond 200 ''{}'' None
              else respond 201 ''{}'' None)"

definition args_new :: args where
  "args_new = \<lparr>token = ''t'', files = [''X.biotools.json''], deleted = []\<rparr>"

text \<open>The registry holds the older version; every PUT is answered with the given
  status.\<close>

definition env_changed :: "int \<Rightarrow> env" where
  "env_changed code = env_of tool_X
     (\<lambda>h rq. if meth rq = GET then respond 200 ''{}'' (Some older_X)
              else respond code ''answer'' None)"

text \<open>Only \<^verbatim>\<open>X.biotools.json\<close> parses; any other file is no JSON.\<close>

definition env_bad_json :: env where
  "env_bad_json =
     \<lparr>load_file = (\<lambda>p. if p = ''X.biotools.json'' then Inr tool_X
                        else Inl (raise JSONDecodeError ''Expecting value: line 1 column 1 (char 0)'')),
      net = (\<lambda>h rq. respond 200 ''{}'' (Some remote_X)),
      py_str = (\<lambda>v. ''?''), exception_values = Inr, GITHUB_SHA = ''unknown''\<rparr>"

text \<open>The importer's scenario: two tools, and a file system where the file of the first
  exists with other content.\<close>

definition ienv_two :: imp_env where
  "ienv_two =
     \<lparr>get_text = (\<lambda>u. Inr ''toolA: {name: A}, toolB: {name: B}''),
      safe_load = (\<lambda>t. Inr (JObj [(''toolA'', JObj [(''name'', JStr ''A'')]),
                                   (''toolB'', JObj [(''name'', JStr ''B'')])])),
      os_error = (\<lambda>op. None)\<rparr>"

definition fs_old :: fs where
  "fs_old = \<lparr>dirs = {''out''},
             contents = [''out/toolA/toolA.biocontainers.yaml'' \<mapsto> JStr ''old'']\<rparr>"

section \<open>Lemmas\<close>

lemmas count_defs = body_counts_def one_counted_def lists_same_def counted_ok_def
  counted_failed_def counted_unchanged_def

lemma map_of_drop_term:
  "k \<noteq> ''term'' \<Longrightarrow>
   map_of (map (\<lambda>(k, v). (k, drop_term v)) (filter (\<lambda>(k, v). k \<noteq> ''term'') kvs)) k
     = map_option drop_term (map_of kvs k)"
  by (induction kvs) auto

lemma falsy_drop_term: "\<not> truthy v \<Longrightarrow> drop_term v = v"
  by (cases v) auto

lemma py_eq_refl: "wf_json v \<Longrightarrow> py_eq v v"
proof (induction v)
  case (JArr xs)
  then show ?case by (auto simp: list_all2_same list_all_iff)
next
  case (JObj kvs)
  then show ?case by (fastforce simp: list_all_iff)
qed auto

lemma loop2_next:
  "fst (iteration2 env tok f s) = None \<Longrightarrow>
   loop2 env tok (f # fs) s = loop2 env tok fs (snd (iteration2 env tok f s))"
  by (cases "iteration2 env tok f s") auto

lemma loop3_next:
  "fst (iteration3 env tok f s) = None \<Longrightarrow>
   loop3 env tok (f # fs) s = loop3 env tok fs (snd (iteration3 env tok f s))"
  by (cases "iteration3 env tok f s") auto

lemma try_body2_local:
  assumes "local_record env f payload tool_id"
  shows "try_body2 env tok f s =
     checked2 env tok tool_id payload
       (s\<lparr>world := logging DEBUG (''Processing '' @ f @ ''...'') (world s),
          payload_dict := Some payload\<rparr>)"
  using assms by (auto simp: local_record_def try_body2_def Let_def)

lemma try_body3_local:
  assumes "local_record env f payload tool_id"
  shows "try_body3 env tok f s =
     checked3 env tok tool_id payload
       (s\<lparr>world := logging DEBUG (''uploading '' @ f @ ''...'') (world s),
          payload_dict := Some payload\<rparr>)"
  using assms by (auto simp: local_record_def try_body3_def Let_def)

lemma missing_id_2:
  assumes "load_file env f = Inr (JObj kvs)"
    and "get_method (JObj kvs) ''biotoolsID'' JNull = Inr v" and "\<not> truthy v"
  shows "fst (iteration2 env tok f s) = None"
    and "counted_failed s (snd (iteration2 env tok f s)) (JStr ''UNKNOWN'')"
    and "sent (world (snd (iteration2 env tok f s))) = sent (world s)"
    and "last (logged (world (snd (iteration2 env tok f s))))
           = (ERROR, CHR 0x27 # ''biotoolsID'' @ CHR 0x27 # '' not found in '' @ f)"
  using assms
  by (auto simp: iteration2_def try_body2_def Let_def map_of_drop_term counted_failed_def
        logging_def falsy_drop_term split: option.splits)

lemma missing_id_3:
  assumes "load_file env f = Inr (JObj kvs)"
    and "get_method (JObj kvs) ''biotoolsID'' JNull = Inr v" and "\<not> truthy v"
  shows "fst (iteration3 env tok f s) = None"
    and "counted_failed s (snd (iteration3 env tok f s)) (JStr ''UNKNOWN'', ''biotoolsID not found'')"
    and "sent (world (snd (iteration3 env tok f s))) = sent (world s)"
    and "last (logged (world (snd (iteration3 env tok f s))))
           = (ERROR, CHR 0x27 # ''biotoolsID'' @ CHR 0x27 # '' not found in '' @ f)"
  using assms
  by (auto simp: iteration3_def try_body3_def Let_def map_of_drop_term counted_failed_def
        logging_def falsy_drop_term split: option.splits)

lemma unchanged_2:
  assumes "local_record env f payload tool_id" "remote_record r existing_tool" "py_eq existing_tool payload"
   and "net env (sent (world s)) (get_request2 env tool_id) = Inr r"
  shows "fst (iteration2 env tok f s) = None"
    and "counted_unchanged s (snd (iteration2 env tok f s)) tool_id"
    and "sent (world (snd (iteration2 env tok f s))) = sent (world s) @ [get_request2 env tool_id]"
  using assms(2-)
  by (auto simp: iteration2_def try_body2_local[OF assms(1)] checked2_def send_def logging_def existing2_def remote_record_def counted_unchanged_def)

lemma unchanged_3:
  assumes "local_record env f payload (JStr tid)" "remote_record r existing_tool" "py_eq existing_tool payload"
   and "net env (sent (world s)) (get_request3 tok tid) = Inr r"
  shows "fst (iteration3 env tok f s) = None"
    and "counted_unchanged s (snd (iteration3 env tok f s)) (JStr tid)"
    and "sent (world (snd (iteration3 env tok f s))) = sent (world s) @ [get_request3 tok tid]"
  using assms(2-)
  by (auto simp: iteration3_def try_body3_local[OF assms(1)] checked3_def send_def logging_def existing3_def remote_record_def counted_unchanged_def)

lemma changed2_counts: "body_counts s (changed2 env tok tid p s)"
  by (auto simp: changed2_def Let_def count_defs split: prod.splits sum.splits)

lemma missing2_counts: "body_counts s (missing2 env tok tid p s)"
  by (auto simp: missing2_def Let_def count_defs split: prod.splits sum.splits)

lemma body_counts_cong: "lists_same s s0 \<Longrightarrow> body_counts s0 res \<Longrightarrow> body_counts s res"
  by (auto simp: count_defs split: prod.splits option.splits)

lemma existing2_counts: "body_counts s (existing2 env tok tid p r s)"
  using changed2_counts[of s env tok tid p]
  by (auto simp: existing2_def count_defs split: option.splits sum.splits)

lemma checked2_counts: "body_counts s (checked2 env tok tid p s)"
proof -
  have a: "\<And>r w. body_counts s (existing2 env tok tid p r (s\<lparr>response := Some r, world := w\<rparr>))"
    by (rule body_counts_cong[OF _ existing2_counts]) (simp add: lists_same_def)
  have b: "\<And>r w. body_counts s (missing2 env tok tid p (s\<lparr>response := Some r, world := w\<rparr>))"
    by (rule body_counts_cong[OF _ missing2_counts]) (simp add: lists_same_def)
  show ?thesis
    using a b
    by (auto simp: checked2_def Let_def split: prod.splits sum.splits)
       (auto simp: count_defs)
qed

lemma try_body2_counts: "body_counts s (try_body2 env tok f s)"
proof -
  have a: "\<And>tid p w pd. body_counts s (checked2 env tok tid p (s\<lparr>world := w, payload_dict := pd\<rparr>))"
    by (rule body_counts_cong[OF _ checked2_counts]) (simp add: lists_same_def)
  show ?thesis
    using a
    by (auto simp: try_body2_def Let_def split: sum.splits)
       (auto simp: count_defs)
qed

lemma append_ko2_counts:
  "append_ko2 s = (None, s') \<Longrightarrow> \<exists>x. counted_failed s s' x"
  by (auto simp: append_ko2_def counted_failed_def split: option.splits sum.splits)

lemma handlers2_counts:
  "handlers2 env f e s = (None, s') \<Longrightarrow> \<exists>x. counted_failed s s' x"
  by (auto simp: handlers2_def counted_failed_def split: if_splits sum.splits prod.splits dest!: append_ko2_counts)

lemma iteration2_counts:
  assumes "iteration2 env tok f s = (None, s')"
  shows "one_counted s s'"
proof (cases "try_body2 env tok f s")
  case (Pair x s1)
  with try_body2_counts[of s env tok f] have bc: "body_counts s (x, s1)" by simp
  show ?thesis
  proof (cases x)
    case None
    with Pair assms bc show ?thesis by (simp add: iteration2_def body_counts_def)
  next
    case (Some e)
    with Pair assms have "handlers2 env f e s1 = (None, s')" by (simp add: iteration2_def)
    from handlers2_counts[OF this] obtain y where "counted_failed s1 s' y" ..
    moreover from Some bc have "lists_same s s1" by (simp add: body_counts_def)
    ultimately show ?thesis by (auto simp: count_defs)
  qed
qed

lemma changed3_counts: "body_counts s (changed3 env tok tid p s)"
  by (auto simp: changed3_def Let_def count_defs split: prod.splits sum.splits)

lemma missing3_counts: "body_counts s (missing3 env tok tid p s)"
  by (auto simp: missing3_def Let_def count_defs split: prod.splits sum.splits)

lemma existing3_counts: "body_counts s (existing3 env tok tid p r s)"
  using changed3_counts[of s env tok tid p]
  by (auto simp: existing3_def count_defs split: option.splits sum.splits)

lemma checked3_counts: "body_counts s (checked3 env tok tid p s)"
proof -
  have a: "\<And>r w. body_counts s (existing3 env tok tid p r (s\<lparr>response := Some r, world := w\<rparr>))"
    by (rule body_counts_cong[OF _ existing3_counts]) (simp add: lists_same_def)
  have b: "\<And>r w. body_counts s (missing3 env tok tid p (s\<lparr>response := Some r, world := w\<rparr>))"
    by (rule body_counts_cong[OF _ missing3_counts]) (simp add: lists_same_def)
  show ?thesis
    using a b
    by (auto simp: checked3_def Let_def split: prod.splits sum.splits json.splits)
       (auto simp: count_defs)
qed

lemma try_body3_counts: "body_counts s (try_body3 env tok f s)"
proof -
  have a: "\<And>tid p w pd. body_counts s (checked3 env tok tid p (s\<lparr>world := w, payload_dict := pd\<rparr>))"
    by (rule body_counts_cong[OF _ checked3_counts]) (simp add: lists_same_def)
  show ?thesis
    using a
    by (auto simp: try_body3_def Let_def split: sum.splits)
       (auto simp: count_defs)
qed

lemma append_ko3_counts:
  "append_ko3 m s = (None, s') \<Longrightarrow> \<exists>x. counted_failed s s' x"
  by (auto simp: append_ko3_def counted_failed_def split: option.splits sum.splits)

lemma handlers3_counts:
  "handlers3 env f e s = (None, s') \<Longrightarrow> \<exists>x. counted_failed s s' x"
  by (auto simp: handlers3_def counted_failed_def split: if_splits sum.splits prod.splits dest!: append_ko3_counts)

lemma iteration3_counts:
  assumes "iteration3 env tok f s = (None, s')"
  shows "one_counted s s'"
proof (cases "try_body3 env tok f s")
  case (Pair x s1)
  with try_body3_counts[of s env tok f] have bc: "body_counts s (x, s1)" by simp
  show ?thesis
  proof (cases x)
    case None
    with Pair assms bc show ?thesis by (simp add: iteration3_def body_counts_def)
  next
    case (Some e)
    with Pair assms have "handlers3 env f e s1 = (None, s')" by (simp add: iteration3_def)
    from handlers3_counts[OF this] obtain y where "counted_failed s1 s' y" ..
    moreover from Some bc have "lists_same s s1" by (simp add: body_counts_def)
    ultimately show ?thesis by (auto simp: count_defs)
  qed
qed

lemma delete_tool2_sent:
  "sent (snd (delete_tool2 env tok i w)) = sent w @ [delete_request tok i]"
  by (auto simp: delete_tool2_def send_def logging_def delete_request_def get_headers_def
        split: sum.splits)

lemma delete_tool3_sent:
  "sent (snd (delete_tool3 env tok i w)) = sent w @ [delete_request tok i]"
  by (auto simp: delete_tool3_def send_def logging_def delete_request_def split: sum.splits)

lemma delete_tool2_answered:
  assumes "net env (sent w) (delete_request tok i) = Inr r"
  shows "fst (delete_tool2 env tok i w) = None"
    and "map fst (logged (snd (delete_tool2 env tok i w)))
           = map fst (logged w) @ [delete_level (status_code r)]"
    and "written (snd (delete_tool2 env tok i w)) = written w"
  using assms
  by (auto simp: delete_tool2_def send_def logging_def delete_request_def get_headers_def
        delete_level_def)

lemma delete_tool3_answered:
  assumes "net env (sent w) (delete_request tok i) = Inr r"
  shows "fst (delete_tool3 env tok i w) = None"
    and "map fst (logged (snd (delete_tool3 env tok i w)))
           = map fst (logged w) @ [delete_level (status_code r)]"
    and "written (snd (delete_tool3 env tok i w)) = written w"
  using assms
  by (auto simp: delete_tool3_def send_def logging_def delete_request_def delete_level_def)

lemma deleted_loop2_answered:
  "deletes_answered env \<Longrightarrow>
     fst (deleted_loop2 env tok ds w) = Finished
   \<and> sent (snd (deleted_loop2 env tok ds w))
       = sent w @ map (\<lambda>d. delete_request tok (biotools_id_of d)) ds"
proof (induction ds arbitrary: w)
  case Nil
  then show ?case by simp
next
  case (Cons d ds)
  let ?w1 = "logging INFO (''Deleting tool '' @ biotools_id_of d @ ''...'') w"
  from Cons.prems obtain r where
    r: "net env (sent ?w1) (delete_request tok (biotools_id_of d)) = Inr r"
    unfolding deletes_answered_def by (metis delete_request_def request.select_convs(1))
  obtain x w2 where d2: "delete_tool2 env tok (biotools_id_of d) ?w1 = (x, w2)"
    by (cases "delete_tool2 env tok (biotools_id_of d) ?w1")
  with delete_tool2_answered(1)[OF r] delete_tool2_sent[of env tok "biotools_id_of d" ?w1]
  have x: "x = None" and s: "sent w2 = sent w @ [delete_request tok (biotools_id_of d)]"
    by (simp_all add: logging_def)
  from Cons.IH[OF Cons.prems, of w2] d2 x s show ?case by (simp add: Let_def)
qed

lemma deleted_loop3_answered:
  "deletes_answered env \<Longrightarrow>
     fst (deleted_loop3 env tok ds w) = Finished
   \<and> sent (snd (deleted_loop3 env tok ds w))
       = sent w @ map (\<lambda>d. delete_request tok (biotools_id_of d)) ds"
proof (induction ds arbitrary: w)
  case Nil
  then show ?case by simp
next
  case (Cons d ds)
  let ?w1 = "logging INFO (''Deleting tool '' @ biotools_id_of d @ ''...'') w"
  from Cons.prems obtain r where
    r: "net env (sent ?w1) (delete_request tok (biotools_id_of d)) = Inr r"
    unfolding deletes_answered_def by (metis delete_request_def request.select_convs(1))
  obtain x w2 where d2: "delete_tool3 env tok (biotools_id_of d) ?w1 = (x, w2)"
    by (cases "delete_tool3 env tok (biotools_id_of d) ?w1")
  with delete_tool3_answered(1)[OF r] delete_tool3_sent[of env tok "biotools_id_of d" ?w1]
  have x: "x = None" and s: "sent w2 = sent w @ [delete_request tok (biotools_id_of d)]"
    by (simp_all add: logging_def)
  from Cons.IH[OF Cons.prems, of w2] d2 x s show ?case by (simp add: Let_def)
qed

lemma local_record_id:
  assumes "local_record env f payload tool_id"
  shows "get_method payload ''biotoolsID'' d = Inr tool_id"
    and "subscript payload ''biotoolsID'' = Inr tool_id"
  using assms
  by (cases payload; auto simp: local_record_def split: option.splits)+

lemma handlers2_after_get:
  assumes "payload_dict s = Some payload"
    and "get_method payload ''biotoolsID'' (JStr ''UNKNOWN'') = Inr tool_id"
    and "response s = Some r" and "status_code r \<noteq> 500"
  shows "fst (handlers2 env f e s) = None"
    and "counted_failed s (snd (handlers2 env f e s)) tool_id"
    and "sent (world (snd (handlers2 env f e s))) = sent (world s)"
  using assms
  by (auto simp: handlers2_def append_ko2_def http_error_messages_def logging_def
        counted_failed_def)

lemma handlers3_after_get:
  assumes "payload_dict s = Some payload"
    and "subscript payload ''biotoolsID'' = Inr tool_id"
    and "response s = Some r" and "status_code r \<noteq> 500"
  shows "fst (handlers3 env f e s) = None"
    and "\<exists>m. counted_failed s (snd (handlers3 env f e s)) (tool_id, m)"
    and "sent (world (snd (handlers3 env f e s))) = sent (world s)"
  using assms
  by (auto simp: handlers3_def append_ko3_def http_error_messages_def logging_def
        counted_failed_def)

lemma deleted_loop2_Finished:
  "deletes_answered env \<Longrightarrow> deleted_loop2 env tok ds w = (x, w') \<Longrightarrow> x = Finished"
  using deleted_loop2_answered[of env tok ds w] by simp

lemma deleted_loop3_Finished:
  "deletes_answered env \<Longrightarrow> deleted_loop3 env tok ds w = (x, w') \<Longrightarrow> x = Finished"
  using deleted_loop3_answered[of env tok ds w] by simp

lemma main2_report:
  "fst (snd (main2 env a w)) = fst (snd (main2 env (a\<lparr>deleted := []\<rparr>) w))"
  by (auto simp: main2_def split: prod.splits ending.splits)

lemma main3_report:
  "fst (snd (main3 env a w)) = fst (snd (main3 env (a\<lparr>deleted := []\<rparr>) w))"
  by (auto simp: main3_def write_report_def module_tools_ko_def
        split: prod.splits ending.splits)

lemma main2_deleted:
  assumes "deletes_answered env"
  shows "fst (main2 env a w) = fst (main2 env (a\<lparr>deleted := []\<rparr>) w)"
  by (auto simp: main2_def split: prod.splits ending.splits
        dest: deleted_loop2_Finished[OF assms])

lemma main3_deleted:
  assumes "deletes_answered env"
  shows "fst (main3 env a w) = fst (main3 env (a\<lparr>deleted := []\<rparr>) w)"
  by (auto simp: main3_def write_report_def module_tools_ko_def
        split: prod.splits ending.splits dest: deleted_loop3_Finished[OF assms])

lemma missing_2:
  assumes L: "local_record env f payload tool_id"
    and G: "net env (sent (world s)) (get_request2 env tool_id) = Inr r"
    and N: "status_code r = 404"
  shows "fst (iteration2 env tok f s) = None"
    and "sent (world (snd (iteration2 env tok f s)))
           = sent (world s) @ [get_request2 env tool_id, validate_request tok payload]
             @ (if validated (net env (sent (world s) @ [get_request2 env tool_id])
                               (validate_request tok payload))
                then [create_request tok payload] else [])"
    and "net env (sent (world s) @ [get_request2 env tool_id]) (validate_request tok payload)
           = Inr rv \<Longrightarrow> \<not> ok rv \<Longrightarrow>
         counted_failed s (snd (iteration2 env tok f s)) tool_id
         \<and> last (logged (world (snd (iteration2 env tok f s))))
             = (ERROR, ''Validation failed for '' @ format env tool_id @ '': '' @ text' rv)"
  using G N local_record_id[OF L]
  by (auto simp: iteration2_def try_body2_local[OF L] checked2_def missing2_def send_def
        validate_upload_tool2_def upload_tool2_def except_RequestException_def
        validate_request_def create_request_def validated_def get_headers_def Let_def
        handlers2_def append_ko2_def http_error_messages_def logging_def counted_failed_def
        split: sum.splits)

lemma missing_3:
  assumes L: "local_record env f payload (JStr tid)"
    and G: "net env (sent (world s)) (get_request3 tok tid) = Inr r"
    and N: "status_code r = 404"
  shows "fst (iteration3 env tok f s) = None"
    and "sent (world (snd (iteration3 env tok f s)))
           = sent (world s) @ [get_request3 tok tid, validate_request tok payload]
             @ (if validated (net env (sent (world s) @ [get_request3 tok tid])
                               (validate_request tok payload))
                then [create_request tok payload] else [])"
    and "net env (sent (world s) @ [get_request3 tok tid]) (validate_request tok payload)
           = Inr rv \<Longrightarrow> \<not> ok rv \<Longrightarrow>
         counted_failed s (snd (iteration3 env tok f s)) (JStr tid, text' rv)"
  using G N local_record_id[OF L]
  by (auto simp: iteration3_def try_body3_local[OF L] checked3_def missing3_def send_def
        validate_tool3_def upload_tool3_def except_RequestException_def except_HTTPError3_def
        validate_request_def create_request_def validated_def Let_def
        handlers3_def append_ko3_def http_error_messages_def logging_def counted_failed_def
        split: sum.splits option.splits)

lemma changed_2:
  assumes L: "local_record env f payload tool_id"
    and R: "remote_record r existing_tool"
    and D: "\<not> py_eq existing_tool payload"
    and G: "net env (sent (world s)) (get_request2 env tool_id) = Inr r"
  shows "fst (iteration2 env tok f s) = None"
    and "sent (world (snd (iteration2 env tok f s)))
           = sent (world s)
             @ [get_request2 env tool_id, validate_update_request env tok tool_id payload]
             @ (if validated (net env (sent (world s) @ [get_request2 env tool_id])
                               (validate_update_request env tok tool_id payload))
                then [update_request env tok tool_id payload] else [])"
    and "validated (net env (sent (world s) @ [get_request2 env tool_id])
                     (validate_update_request env tok tool_id payload)) \<Longrightarrow>
         answered_ok (net env (sent (world s) @ [get_request2 env tool_id,
                                  validate_update_request env tok tool_id payload])
                        (update_request env tok tool_id payload)) \<Longrightarrow>
         counted_ok s (snd (iteration2 env tok f s)) tool_id"
    and "\<not> validated (net env (sent (world s) @ [get_request2 env tool_id])
                       (validate_update_request env tok tool_id payload))
         \<or> raised (net env (sent (world s) @ [get_request2 env tool_id,
                                  validate_update_request env tok tool_id payload])
                        (update_request env tok tool_id payload)) \<Longrightarrow>
         counted_failed s (snd (iteration2 env tok f s)) tool_id"
  using G R D local_record_id[OF L]
  by (auto simp: iteration2_def try_body2_local[OF L] checked2_def existing2_def changed2_def
        send_def remote_record_def
        validate_update_tool2_def update_tool2_def except_RequestException_def
        validate_update_request_def update_request_def validated_def answered_ok_def raised_def
        get_headers_def Let_def
        handlers2_def append_ko2_def http_error_messages_def logging_def counted_failed_def
        counted_ok_def
        split: sum.splits)

lemma changed_3:
  assumes L: "local_record env f payload (JStr tid)"
    and R: "remote_record r existing_tool"
    and D: "\<not> py_eq existing_tool payload"
    and G: "net env (sent (world s)) (get_request3 tok tid) = Inr r"
  shows "fst (iteration3 env tok f s) = None"
    and "sent (world (snd (iteration3 env tok f s)))
           = sent (world s) @ [get_request3 tok tid, update_request env tok (JStr tid) payload]"
    and "answered_ok (net env (sent (world s) @ [get_request3 tok tid])
                        (update_request env tok (JStr tid) payload)) \<Longrightarrow>
         counted_ok s (snd (iteration3 env tok f s)) (JStr tid)"
    and "raised (net env (sent (world s) @ [get_request3 tok tid])
                        (update_request env tok (JStr tid) payload)) \<Longrightarrow>
         \<exists>m. counted_failed s (snd (iteration3 env tok f s)) (JStr tid, m)"
  using G R D local_record_id[OF L]
  by (auto simp: iteration3_def try_body3_local[OF L] checked3_def existing3_def changed3_def
        send_def remote_record_def
        update_tool3_def except_RequestException_def except_HTTPError3_def
        update_request_def answered_ok_def raised_def Let_def
        handlers3_def append_ko3_def http_error_messages_def logging_def counted_failed_def
        counted_ok_def
        split: sum.splits option.splits)

lemma update_error_status_counted_ok:
  "counted_ok (init_state w0)
     (snd (iteration3 (env_changed 500) ''t'' ''X.biotools.json'' (init_state w0))) (JStr ''X'')
   \<and> counted_ok (init_state w0)
     (snd (iteration2 (env_changed 200) ''t'' ''X.biotools.json'' (init_state w0))) (JStr ''X'')"
  by (simp add: iteration3_def try_body3_def checked3_def existing3_def changed3_def
        update_tool3_def iteration2_def try_body2_def checked2_def existing2_def changed2_def
        validate_update_tool2_def update_tool2_def get_headers_def ok_def
        send_def logging_def get_request3_def get_request2_def env_changed_def env_of_def
        init_state_def w0_def respond_def tool_X_def older_X_def counted_ok_def)

lemma run_upload3_ending:
  "fst (run_upload3 env tok fs w) \<noteq> SystemExit n"
  by (auto simp: run_upload3_def split: prod.splits option.splits)

lemma deleted_loop3_ending:
  "fst (deleted_loop3 env tok ds w) \<noteq> SystemExit n"
  by (induction ds arbitrary: w) (auto simp: Let_def split: prod.splits option.splits)

lemma main3_exit_code: "exit_code (fst (main3 env a w)) = 1"
proof -
  have "fst (main3 env a w) \<noteq> Finished"
    by (auto simp: main3_def write_report_def module_tools_ko_def
          split: prod.splits ending.splits if_splits)
  moreover have "\<And>n. fst (main3 env a w) \<noteq> SystemExit n"
    using run_upload3_ending[of env "token a" "files a" w] deleted_loop3_ending[of env "token a" "deleted a"]
    by (auto simp: main3_def write_report_def module_tools_ko_def
          split: prod.splits ending.splits if_splits) (metis fst_conv)+
  ultimately show ?thesis by (cases "fst (main3 env a w)") auto
qed

lemma run_upload2_exit:
  "(fst (run_upload2 env tok fs w) = Finished \<longrightarrow> tools_ko (snd (run_upload2 env tok fs w)) = [])
   \<and> (fst (run_upload2 env tok fs w) = SystemExit n \<longrightarrow>
        n = 1 \<and> tools_ko (snd (run_upload2 env tok fs w)) \<noteq> [])"
  by (auto simp: run_upload2_def Let_def split: prod.splits option.splits if_splits)

lemma tool_annotation_yaml_inj:
  assumes "tool_annotation_yaml c k = tool_annotation_yaml c k'"
  shows "k = k'"
proof -
  from assms have e: "k @ (''/'' @ k @ ''.biocontainers.yaml'')
                    = k' @ (''/'' @ k' @ ''.biocontainers.yaml'')"
    by (simp add: tool_annotation_yaml_def)
  then have "length (k @ (''/'' @ k @ ''.biocontainers.yaml''))
           = length (k' @ (''/'' @ k' @ ''.biocontainers.yaml''))"
    by (rule arg_cong)
  then have "length k = length k'" by simp
  with e show ?thesis by (metis append_eq_append_conv)
qed

lemma makedirs_Inr:
  "makedirs ienv name f = Inr f1 \<Longrightarrow>
     dirs f1 = dirs f \<union> set (name # ancestors name) \<and> contents f1 = contents f"
  by (auto simp: makedirs_def split: option.splits if_splits)

lemma open_w_Inr:
  "open_w ienv path doc f = Inr f2 \<Longrightarrow>
     dirs f2 = dirs f \<and> contents f2 = (contents f)(path \<mapsto> doc)"
  by (auto simp: open_w_def split: option.splits if_splits)

lemma write_annotations_frame:
  "write_annotations ienv c kvs f = (None, f') \<Longrightarrow>
     dirs f \<subseteq> dirs f'
   \<and> (p \<notin> tool_annotation_yaml c ` fst ` set kvs \<longrightarrow> contents f' p = contents f p)"
proof (induction kvs arbitrary: f)
  case Nil
  then show ?case by simp
next
  case (Cons kv kvs)
  obtain k v where kv: "kv = (k, v)" by (cases kv)
  from Cons.prems kv obtain f1 f2 where
    m: "makedirs ienv (dirname (tool_annotation_yaml c k)) f = Inr f1"
    and w: "open_w ienv (tool_annotation_yaml c k) v f1 = Inr f2"
    and r: "write_annotations ienv c kvs f2 = (None, f')"
    by (auto split: sum.splits)
  from makedirs_Inr[OF m] open_w_Inr[OF w] Cons.IH[OF r] kv
  show ?case by auto
qed

lemma write_annotations_written:
  "write_annotations ienv c kvs f = (None, f') \<Longrightarrow> distinct (map fst kvs) \<Longrightarrow>
   (k, v) \<in> set kvs \<Longrightarrow>
     contents f' (tool_annotation_yaml c k) = Some v
   \<and> set (dirname (tool_annotation_yaml c k) # ancestors (dirname (tool_annotation_yaml c k)))
       \<subseteq> dirs f'"
proof (induction kvs arbitrary: f)
  case Nil
  then show ?case by simp
next
  case (Cons kv kvs)
  obtain k0 v0 where kv: "kv = (k0, v0)" by (cases kv)
  from Cons.prems(1) kv obtain f1 f2 where
    m: "makedirs ienv (dirname (tool_annotation_yaml c k0)) f = Inr f1"
    and w: "open_w ienv (tool_annotation_yaml c k0) v0 f1 = Inr f2"
    and r: "write_annotations ienv c kvs f2 = (None, f')"
    by (auto split: sum.splits)
  show ?case
  proof (cases "(k, v) \<in> set kvs")
    case True
    with Cons.IH[OF r] Cons.prems(2) show ?thesis by simp
  next
    case False
    with Cons.prems(3) kv have eq: "k = k0" "v = v0" by auto
    from Cons.prems(2) kv have "k0 \<notin> fst ` set kvs" by simp
    then have "tool_annotation_yaml c k0 \<notin> tool_annotation_yaml c ` fst ` set kvs"
      using tool_annotation_yaml_inj by blast
    with write_annotations_frame[OF r, of "tool_annotation_yaml c k0"]
    have "contents f' (tool_annotation_yaml c k0) = contents f2 (tool_annotation_yaml c k0)"
      and "dirs f2 \<subseteq> dirs f'" by simp_all
    with makedirs_Inr[OF m] open_w_Inr[OF w] eq show ?thesis by auto
  qed
qed

section \<open>The claims\<close>

text \<open>
  C1. A local record whose normalized form (the keys \<^verbatim>\<open>term\<close> removed at every depth)
  compares equal to the normalized form of the record the registry returned with status
  200 is counted as unchanged, and the GET is the only request of that iteration: no PUT
  and no POST is sent. In both scripts; gh2biotools3 needs the id to be a string. The
  comparison is Python's \<^verbatim>\<open>==\<close>, which holds between a parsed record and itself
  (\<open>py_eq_refl\<close>).
\<close>

theorem C1_unchanged_no_mutating_call:
  assumes "local_record env f payload tool_id"
    and "remote_record r existing_tool"
    and "py_eq existing_tool payload"
  shows "(net env (sent (world s2)) (get_request2 env tool_id) = Inr r \<longrightarrow>
            fst (iteration2 env tok f s2) = None
          \<and> counted_unchanged s2 (snd (iteration2 env tok f s2)) tool_id
          \<and> sent (world (snd (iteration2 env tok f s2)))
              = sent (world s2) @ [get_request2 env tool_id])
       \<and> (\<forall>tid. tool_id = JStr tid
              \<and> net env (sent (world s3)) (get_request3 tok tid) = Inr r \<longrightarrow>
            fst (iteration3 env tok f s3) = None
          \<and> counted_unchanged s3 (snd (iteration3 env tok f s3)) tool_id
          \<and> sent (world (snd (iteration3 env tok f s3)))
              = sent (world s3) @ [get_request3 tok tid])"
proof -
  have A: "net env (sent (world s2)) (get_request2 env tool_id) = Inr r \<Longrightarrow>
            fst (iteration2 env tok f s2) = None
          \<and> counted_unchanged s2 (snd (iteration2 env tok f s2)) tool_id
          \<and> sent (world (snd (iteration2 env tok f s2)))
              = sent (world s2) @ [get_request2 env tool_id]"
    using unchanged_2[OF assms, where s = s2 and tok = tok] by simp
  have B: "\<And>tid. tool_id = JStr tid \<Longrightarrow>
            net env (sent (world s3)) (get_request3 tok tid) = Inr r \<Longrightarrow>
            fst (iteration3 env tok f s3) = None
          \<and> counted_unchanged s3 (snd (iteration3 env tok f s3)) tool_id
          \<and> sent (world (snd (iteration3 env tok f s3)))
              = sent (world s3) @ [get_request3 tok tid]"
    using unchanged_3[OF _ assms(2,3), where s = s3 and tok = tok and env = env and f = f] assms(1)
    by simp
  show ?thesis using A B by blast
qed

theorem C1_unchanged_witness:
  "counted_unchanged (init_state w0)
      (snd (iteration2 env_unchanged ''t'' ''X.biotools.json'' (init_state w0))) (JStr ''X'')
   \<and> map meth (sent (world (snd (iteration2 env_unchanged ''t'' ''X.biotools.json'' (init_state w0)))))
       = [GET]
   \<and> counted_unchanged (init_state w0)
      (snd (iteration3 env_unchanged ''t'' ''X.biotools.json'' (init_state w0))) (JStr ''X'')
   \<and> map meth (sent (world (snd (iteration3 env_unchanged ''t'' ''X.biotools.json'' (init_state w0)))))
       = [GET]"
  using C1_unchanged_no_mutating_call[of env_unchanged "''X.biotools.json''" "drop_term tool_X"
      "JStr ''X''" "\<lparr>status_code = 200, text' = ''{}'', json_body = Some remote_X\<rparr>"
      "drop_term remote_X" "init_state w0" "''t''" "init_state w0"]
  by (simp add: env_unchanged_def env_of_def init_state_def w0_def local_record_def
        remote_record_def tool_X_def remote_X_def respond_def get_request2_def get_request3_def)

text \<open>
  C2, as amended. When the GET for a local record is answered with 200 and the normalized
  records compare unequal, gh2biotools3 sends exactly one PUT, to the URL of the tool;
  gh2biotools2 first sends a validation PUT to \<^verbatim>\<open>/api/tool/{id}/validate/\<close> and sends
  the updating PUT if and only if the validation was answered with an ok status. The file
  is counted as a success when the updating PUT is sent and answered with an ok status,
  and as a failure when the validation is rejected or raises, or the updating PUT raises.
  What an updating PUT answered with an error status leads to is left open here. The
  claim as stated fails on gh2biotools2, where a differing record gets two PUT requests
  when the validation passes and no updating PUT when it does not.
\<close>

theorem C2_changed_record_update:
  assumes "local_record env f payload tool_id"
    and "remote_record r existing_tool"
    and "\<not> py_eq existing_tool payload"
  shows "(net env (sent (world s2)) (get_request2 env tool_id) = Inr r \<longrightarrow>
            fst (iteration2 env tok f s2) = None
          \<and> sent (world (snd (iteration2 env tok f s2)))
              = sent (world s2)
                @ [get_request2 env tool_id, validate_update_request env tok tool_id payload]
                @ (if validated (net env (sent (world s2) @ [get_request2 env tool_id])
                                  (validate_update_request env tok tool_id payload))
                   then [update_request env tok tool_id payload] else [])
          \<and> (validated (net env (sent (world s2) @ [get_request2 env tool_id])
                           (validate_update_request env tok tool_id payload))
              \<and> answered_ok (net env (sent (world s2) @ [get_request2 env tool_id,
                                        validate_update_request env tok tool_id payload])
                               (update_request env tok tool_id payload)) \<longrightarrow>
               counted_ok s2 (snd (iteration2 env tok f s2)) tool_id)
          \<and> (\<not> validated (net env (sent (world s2) @ [get_request2 env tool_id])
                             (validate_update_request env tok tool_id payload))
              \<or> raised (net env (sent (world s2) @ [get_request2 env tool_id,
                                     validate_update_request env tok tool_id payload])
                           (update_request env tok tool_id payload)) \<longrightarrow>
               counted_failed s2 (snd (iteration2 env tok f s2)) tool_id))
       \<and> (\<forall>tid. tool_id = JStr tid
              \<and> net env (sent (world s3)) (get_request3 tok tid) = Inr r \<longrightarrow>
            fst (iteration3 env tok f s3) = None
          \<and> sent (world (snd (iteration3 env tok f s3)))
              = sent (world s3) @ [get_request3 tok tid, update_request env tok tool_id payload]
          \<and> (answered_ok (net env (sent (world s3) @ [get_request3 tok tid])
                             (update_request env tok tool_id payload)) \<longrightarrow>
               counted_ok s3 (snd (iteration3 env tok f s3)) tool_id)
          \<and> (raised (net env (sent (world s3) @ [get_request3 tok tid])
                        (update_request env tok tool_id payload)) \<longrightarrow>
               (\<exists>m. counted_failed s3 (snd (iteration3 env tok f s3)) (tool_id, m))))"
proof -
  have A: "net env (sent (world s2)) (get_request2 env tool_id) = Inr r \<Longrightarrow>
            fst (iteration2 env tok f s2) = None
          \<and> sent (world (snd (iteration2 env tok f s2)))
              = sent (world s2)
                @ [get_request2 env tool_id, validate_update_request env tok tool_id payload]
                @ (if validated (net env (sent (world s2) @ [get_request2 env tool_id])
                                  (validate_update_request env tok tool_id payload))
                   then [update_request env tok tool_id payload] else [])
          \<and> (validated (net env (sent (world s2) @ [get_request2 env tool_id])
                           (validate_update_request env tok tool_id payload))
              \<and> answered_ok (net env (sent (world s2) @ [get_request2 env tool_id,
                                        validate_update_request env tok tool_id payload])
                               (update_request env tok tool_id payload)) \<longrightarrow>
               counted_ok s2 (snd (iteration2 env tok f s2)) tool_id)
          \<and> (\<not> validated (net env (sent (world s2) @ [get_request2 env tool_id])
                             (validate_update_request env tok tool_id payload))
              \<or> raised (net env (sent (world s2) @ [get_request2 env tool_id,
                                     validate_update_request env tok tool_id payload])
                           (update_request env tok tool_id payload)) \<longrightarrow>
               counted_failed s2 (snd (iteration2 env tok f s2)) tool_id)"
    using changed_2[OF assms, where s = s2 and tok = tok] by blast
  have B: "\<And>tid. tool_id = JStr tid \<Longrightarrow>
            net env (sent (world s3)) (get_request3 tok tid) = Inr r \<Longrightarrow>
            fst (iteration3 env tok f s3) = None
          \<and> sent (world (snd (iteration3 env tok f s3)))
              = sent (world s3) @ [get_request3 tok tid, update_request env tok tool_id payload]
          \<and> (answered_ok (net env (sent (world s3) @ [get_request3 tok tid])
                             (update_request env tok tool_id payload)) \<longrightarrow>
               counted_ok s3 (snd (iteration3 env tok f s3)) tool_id)
          \<and> (raised (net env (sent (world s3) @ [get_request3 tok tid])
                        (update_request env tok tool_id payload)) \<longrightarrow>
               (\<exists>m. counted_failed s3 (snd (iteration3 env tok f s3)) (tool_id, m)))"
  proof -
    fix tid
    assume t: "tool_id = JStr tid"
      and g: "net env (sent (world s3)) (get_request3 tok tid) = Inr r"
    from assms(1) t have l: "local_record env f payload (JStr tid)" by simp
    from changed_3[OF l assms(2,3) g] t
    show "fst (iteration3 env tok f s3) = None
          \<and> sent (world (snd (iteration3 env tok f s3)))
              = sent (world s3) @ [get_request3 tok tid, update_request env tok tool_id payload]
          \<and> (answered_ok (net env (sent (world s3) @ [get_request3 tok tid])
                             (update_request env tok tool_id payload)) \<longrightarrow>
               counted_ok s3 (snd (iteration3 env tok f s3)) tool_id)
          \<and> (raised (net env (sent (world s3) @ [get_request3 tok tid])
                        (update_request env tok tool_id payload)) \<longrightarrow>
               (\<exists>m. counted_failed s3 (snd (iteration3 env tok f s3)) (tool_id, m)))"
      by blast
  qed
  show ?thesis using A B by blast
qed

theorem C2_changed_record_witness:
  "map meth (sent (world (snd (iteration3 (env_changed 200) ''t'' ''X.biotools.json''
                                 (init_state w0))))) = [GET, PUT]
   \<and> counted_ok (init_state w0)
        (snd (iteration3 (env_changed 200) ''t'' ''X.biotools.json'' (init_state w0))) (JStr ''X'')
   \<and> map url (sent (world (snd (iteration2 (env_changed 200) ''t'' ''X.biotools.json''
                                 (init_state w0)))))
       = [HOST @ ''/api/tool/X/'', HOST @ ''/api/tool/X/validate/'', HOST @ ''/api/tool/X/'']
   \<and> counted_failed (init_state w0)
        (snd (iteration2 (env_changed 400) ''t'' ''X.biotools.json'' (init_state w0))) (JStr ''X'')"
proof -
  have l: "\<And>c. local_record (env_changed c) ''X.biotools.json'' (drop_term tool_X) (JStr ''X'')"
    by (simp add: local_record_def env_changed_def env_of_def tool_X_def)
  have r: "remote_record \<lparr>status_code = 200, text' = ''{}'', json_body = Some older_X\<rparr>
             (drop_term older_X)"
    by (simp add: remote_record_def older_X_def)
  have d: "\<not> py_eq (drop_term older_X) (drop_term tool_X)"
    by (simp add: older_X_def tool_X_def)
  show ?thesis
    using C2_changed_record_update[OF l r d, of 200 "init_state w0" "''t''" "init_state w0"]
      C2_changed_record_update[OF l r d, of 400 "init_state w0" "''t''" "init_state w0"]
    by (simp add: env_changed_def env_of_def respond_def init_state_def w0_def
          get_request2_def get_request3_def validate_update_request_def update_request_def
          validated_def answered_ok_def raised_def ok_def format_def TOOL_API_URL_def
          HEADERS_def)
qed

theorem C2_one_put_counterexample:
  "\<not> py_eq (drop_term older_X) (drop_term tool_X)
   \<and> count_list (map meth (sent (world (snd (iteration2 (env_changed 200) ''t''
        ''X.biotools.json'' (init_state w0)))))) PUT = 2
   \<and> count_list (sent (world (snd (iteration2 (env_changed 400) ''t''
        ''X.biotools.json'' (init_state w0)))))
        (update_request (env_changed 400) ''t'' (JStr ''X'') (drop_term tool_X)) = 0
   \<and> counted_failed (init_state w0)
        (snd (iteration2 (env_changed 400) ''t'' ''X.biotools.json'' (init_state w0))) (JStr ''X'')"
  by (simp add: iteration2_def try_body2_def checked2_def existing2_def changed2_def
        validate_update_tool2_def update_tool2_def get_headers_def ok_def
        send_def logging_def get_request2_def env_changed_def env_of_def update_request_def
        init_state_def w0_def respond_def tool_X_def older_X_def counted_failed_def
        format_def TOOL_API_URL_def HEADERS_def)

text \<open>
  C3. A file whose parsed record has no \<^verbatim>\<open>biotoolsID\<close>, or an empty one, gets a
  failure entry \<^verbatim>\<open>UNKNOWN\<close> (in gh2biotools3 with the message
  \<^verbatim>\<open>biotoolsID not found\<close>, in gh2biotools2 with the error line logged for it), no
  request is sent, and the loop goes on with the next file.
\<close>

theorem C3_missing_identifier_no_network:
  assumes "load_file env f = Inr (JObj kvs)"
    and "get_method (JObj kvs) ''biotoolsID'' JNull = Inr v"
    and "\<not> truthy v"
  shows "counted_failed s2 (snd (iteration2 env tok f s2)) (JStr ''UNKNOWN'')
       \<and> last (logged (world (snd (iteration2 env tok f s2))))
           = (ERROR, CHR 0x27 # ''biotoolsID'' @ CHR 0x27 # '' not found in '' @ f)
       \<and> sent (world (snd (iteration2 env tok f s2))) = sent (world s2)
       \<and> loop2 env tok (f # fs) s2 = loop2 env tok fs (snd (iteration2 env tok f s2))
       \<and> counted_failed s3 (snd (iteration3 env tok f s3))
            (JStr ''UNKNOWN'', ''biotoolsID not found'')
       \<and> sent (world (snd (iteration3 env tok f s3))) = sent (world s3)
       \<and> loop3 env tok (f # fs) s3 = loop3 env tok fs (snd (iteration3 env tok f s3))"
  using missing_id_2[OF assms, where tok = tok and s = s2]
    missing_id_3[OF assms, where tok = tok and s = s3]
    loop2_next[of env tok f s2 fs] loop3_next[of env tok f s3 fs]
  by simp

theorem C3_missing_identifier_witness:
  "counted_failed (init_state w0) (snd (iteration2 env_no_id ''t'' ''X.biotools.json'' (init_state w0)))
      (JStr ''UNKNOWN'')
   \<and> sent (world (snd (iteration2 env_no_id ''t'' ''X.biotools.json'' (init_state w0)))) = []
   \<and> counted_failed (init_state w0) (snd (iteration3 env_no_id ''t'' ''X.biotools.json'' (init_state w0)))
      (JStr ''UNKNOWN'', ''biotoolsID not found'')
   \<and> sent (world (snd (iteration3 env_no_id ''t'' ''X.biotools.json'' (init_state w0)))) = []"
  using C3_missing_identifier_no_network[of env_no_id "''X.biotools.json''"
      "[(''name'', JStr ''Tool X''), (''biotoolsID'', JStr '''')]" "JStr ''''"
      "init_state w0" "''t''" "[]" "init_state w0"]
  by (simp add: env_no_id_def env_of_def init_state_def w0_def)

text \<open>
  C4. When the GET for a local record is answered with 404, the iteration sends exactly
  one validation request (POST to \<^verbatim>\<open>/api/tool/validate/\<close>) and then the POST that
  creates the tool if and only if the validation was answered with an ok status, and
  nothing else. A validation answered with an error status counts the file as failed:
  in gh2biotools3 the failure entry carries the validation message, in gh2biotools2 the
  entry is the id and the message is in the error line logged for it.
\<close>

theorem C4_new_tool_validate_then_post:
  assumes "local_record env f payload tool_id" and "status_code r = 404"
  shows "(net env (sent (world s2)) (get_request2 env tool_id) = Inr r \<longrightarrow>
            fst (iteration2 env tok f s2) = None
          \<and> sent (world (snd (iteration2 env tok f s2)))
              = sent (world s2) @ [get_request2 env tool_id, validate_request tok payload]
                @ (if validated (net env (sent (world s2) @ [get_request2 env tool_id])
                                  (validate_request tok payload))
                   then [create_request tok payload] else [])
          \<and> (\<forall>rv. net env (sent (world s2) @ [get_request2 env tool_id])
                      (validate_request tok payload) = Inr rv \<and> \<not> ok rv \<longrightarrow>
                 counted_failed s2 (snd (iteration2 env tok f s2)) tool_id
               \<and> last (logged (world (snd (iteration2 env tok f s2))))
                   = (ERROR, ''Validation failed for '' @ format env tool_id @ '': ''
                             @ text' rv)))
       \<and> (\<forall>tid. tool_id = JStr tid
              \<and> net env (sent (world s3)) (get_request3 tok tid) = Inr r \<longrightarrow>
            fst (iteration3 env tok f s3) = None
          \<and> sent (world (snd (iteration3 env tok f s3)))
              = sent (world s3) @ [get_request3 tok tid, validate_request tok payload]
                @ (if validated (net env (sent (world s3) @ [get_request3 tok tid])
                                  (validate_request tok payload))
                   then [create_request tok payload] else [])
          \<and> (\<forall>rv. net env (sent (world s3) @ [get_request3 tok tid])
                      (validate_request tok payload) = Inr rv \<and> \<not> ok rv \<longrightarrow>
                 counted_failed s3 (snd (iteration3 env tok f s3)) (tool_id, text' rv)))"
proof -
  have A: "net env (sent (world s2)) (get_request2 env tool_id) = Inr r \<Longrightarrow>
            fst (iteration2 env tok f s2) = None
          \<and> sent (world (snd (iteration2 env tok f s2)))
              = sent (world s2) @ [get_request2 env tool_id, validate_request tok payload]
                @ (if validated (net env (sent (world s2) @ [get_request2 env tool_id])
                                  (validate_request tok payload))
                   then [create_request tok payload] else [])
          \<and> (\<forall>rv. net env (sent (world s2) @ [get_request2 env tool_id])
                      (validate_request tok payload) = Inr rv \<and> \<not> ok rv \<longrightarrow>
                 counted_failed s2 (snd (iteration2 env tok f s2)) tool_id
               \<and> last (logged (world (snd (iteration2 env tok f s2))))
                   = (ERROR, ''Validation failed for '' @ format env tool_id @ '': ''
                             @ text' rv))"
    using missing_2[OF assms(1) _ assms(2), where s = s2 and tok = tok] by blast
  have B: "\<And>tid. tool_id = JStr tid \<Longrightarrow>
            net env (sent (world s3)) (get_request3 tok tid) = Inr r \<Longrightarrow>
            fst (iteration3 env tok f s3) = None
          \<and> sent (world (snd (iteration3 env tok f s3)))
              = sent (world s3) @ [get_request3 tok tid, validate_request tok payload]
                @ (if validated (net env (sent (world s3) @ [get_request3 tok tid])
                                  (validate_request tok payload))
                   then [create_request tok payload] else [])
          \<and> (\<forall>rv. net env (sent (world s3) @ [get_request3 tok tid])
                      (validate_request tok payload) = Inr rv \<and> \<not> ok rv \<longrightarrow>
                 counted_failed s3 (snd (iteration3 env tok f s3)) (tool_id, text' rv))"
  proof -
    fix tid
    assume t: "tool_id = JStr tid"
      and g: "net env (sent (world s3)) (get_request3 tok tid) = Inr r"
    from assms(1) t have l: "local_record env f payload (JStr tid)" by simp
    from missing_3[OF l g assms(2)] t
    show "fst (iteration3 env tok f s3) = None
          \<and> sent (world (snd (iteration3 env tok f s3)))
              = sent (world s3) @ [get_request3 tok tid, validate_request tok payload]
                @ (if validated (net env (sent (world s3) @ [get_request3 tok tid])
                                  (validate_request tok payload))
                   then [create_request tok payload] else [])
          \<and> (\<forall>rv. net env (sent (world s3) @ [get_request3 tok tid])
                      (validate_request tok payload) = Inr rv \<and> \<not> ok rv \<longrightarrow>
                 counted_failed s3 (snd (iteration3 env tok f s3)) (tool_id, text' rv))"
      by blast
  qed
  show ?thesis using A B by blast
qed

theorem C4_new_tool_witness:
  "map meth (sent (world (snd (iteration3 env_new ''t'' ''X.biotools.json'' (init_state w0)))))
     = [GET, POST, POST]
   \<and> map url (sent (world (snd (iteration2 env_new ''t'' ''X.biotools.json'' (init_state w0)))))
     = [HOST @ ''/api/tool/X/'', HOST @ ''/api/tool/validate/'', HOST @ ''/api/tool/'']
   \<and> map url (sent (world (snd (iteration3 env_invalid ''t'' ''X.biotools.json'' (init_state w0)))))
     = [HOST @ ''/api/tool/X/'', HOST @ ''/api/tool/validate/'']
   \<and> counted_failed (init_state w0)
        (snd (iteration3 env_invalid ''t'' ''X.biotools.json'' (init_state w0)))
        (JStr ''X'', ''name: too long'')
   \<and> counted_failed (init_state w0)
        (snd (iteration2 env_invalid ''t'' ''X.biotools.json'' (init_state w0))) (JStr ''X'')"
proof -
  have l1: "local_record env_new ''X.biotools.json'' (drop_term tool_X) (JStr ''X'')"
    by (simp add: local_record_def env_new_def env_of_def tool_X_def)
  have l2: "local_record env_invalid ''X.biotools.json'' (drop_term tool_X) (JStr ''X'')"
    by (simp add: local_record_def env_invalid_def env_of_def tool_X_def)
  have r: "status_code \<lparr>status_code = 404, text' = ''Not found'', json_body = None\<rparr> = 404"
    by simp
  show ?thesis
    using C4_new_tool_validate_then_post[OF l1 r, of "init_state w0" "''t''" "init_state w0"]
      C4_new_tool_validate_then_post[OF l2 r, of "init_state w0" "''t''" "init_state w0"]
    by (simp add: env_new_def env_invalid_def env_of_def respond_def init_state_def w0_def
          get_request2_def get_request3_def validate_request_def create_request_def
          validated_def ok_def format_def TOOL_API_URL_def HEADERS_def)
qed

text \<open>
  C5 fails on the code. The handlers read \<^verbatim>\<open>payload_dict\<close>, which \<^verbatim>\<open>json.load\<close> has not
  bound when it raises. With a malformed first file the handler itself raises
  UnboundLocalError: \<^verbatim>\<open>run_upload\<close> is left, no later file is handled, no request is
  sent. With a malformed later file the variable still holds the record of the file
  before it, and the failure entry carries that tool's id instead of \<^verbatim>\<open>UNKNOWN\<close>.
\<close>

theorem C5_malformed_file_aborts_or_misattributes:
  "fst (run_upload2 env_bad_json ''t'' [''bad.biotools.json'', ''X.biotools.json''] w0)
     = Uncaught (unbound ''payload_dict'')
   \<and> sent (world (snd (run_upload2 env_bad_json ''t''
                         [''bad.biotools.json'', ''X.biotools.json''] w0))) = []
   \<and> fst (run_upload3 env_bad_json ''t'' [''bad.biotools.json'', ''X.biotools.json''] w0)
     = Uncaught (unbound ''payload_dict'')
   \<and> sent (world (snd (run_upload3 env_bad_json ''t''
                         [''bad.biotools.json'', ''X.biotools.json''] w0))) = []
   \<and> tools_ko (snd (run_upload2 env_bad_json ''t''
                      [''X.biotools.json'', ''bad.biotools.json''] w0)) = [JStr ''X'']
   \<and> tools_unchanged (snd (run_upload2 env_bad_json ''t''
                      [''X.biotools.json'', ''bad.biotools.json''] w0)) = [JStr ''X'']
   \<and> map fst (tools_ko (snd (run_upload3 env_bad_json ''t''
                      [''X.biotools.json'', ''bad.biotools.json''] w0))) = [JStr ''X'']"
  by (simp add: run_upload2_def run_upload3_def iteration2_def iteration3_def try_body2_def
        try_body3_def checked2_def checked3_def existing2_def existing3_def
        handlers2_def handlers3_def append_ko2_def append_ko3_def is_HTTPError_def raise_def
        send_def logging_def summary2_def summary3_def get_request2_def get_request3_def
        env_bad_json_def init_state_def w0_def respond_def tool_X_def remote_X_def unbound_def)

text \<open>
  C6 fails on gh2biotools3, the script with the failure report. After the two loops it
  reads \<^verbatim>\<open>tools_ko\<close> at module level, where the name is not bound: NameError, so the
  script always ends with exit status 1, also when every file succeeded, and the report
  is not written, also when a file failed.
\<close>

theorem C6_report_never_written_exit_nonzero:
  "fst (main3 env_new args_new w0) = Uncaught (raise NameError ''name tools_ko is not defined'')
   \<and> exit_code (fst (main3 env_new args_new w0)) = 1
   \<and> map_option tools_ok (fst (snd (main3 env_new args_new w0))) = Some [JStr ''X'']
   \<and> map_option tools_ko (fst (snd (main3 env_new args_new w0))) = Some []
   \<and> written (snd (snd (main3 env_new args_new w0))) = []
   \<and> map_option tools_ko (fst (snd (main3 env_invalid args_new w0)))
       = Some [(JStr ''X'', ''name: too long'')]
   \<and> written (snd (snd (main3 env_invalid args_new w0))) = []
   \<and> exit_code (fst (main3 env a w)) = 1"
proof -
  have a: "main3 env_new args_new w0
     = (Uncaught (raise NameError ''name tools_ko is not defined''),
        fst (snd (main3 env_new args_new w0)), snd (snd (main3 env_new args_new w0)))
     \<and> map_option tools_ok (fst (snd (main3 env_new args_new w0))) = Some [JStr ''X'']
     \<and> map_option tools_ko (fst (snd (main3 env_new args_new w0))) = Some []
     \<and> written (snd (snd (main3 env_new args_new w0))) = []"
    by (simp add: main3_def run_upload3_def iteration3_def try_body3_def checked3_def
          missing3_def validate_tool3_def upload_tool3_def ok_def write_report_def
          module_tools_ko_def send_def logging_def summary3_def get_request3_def
          env_new_def env_of_def init_state_def w0_def respond_def tool_X_def args_new_def
          TOOL_API_URL_def)
  have b: "map_option tools_ko (fst (snd (main3 env_invalid args_new w0)))
       = Some [(JStr ''X'', ''name: too long'')]
     \<and> written (snd (snd (main3 env_invalid args_new w0))) = []"
    by (simp add: main3_def run_upload3_def iteration3_def try_body3_def checked3_def
          missing3_def validate_tool3_def upload_tool3_def ok_def write_report_def
          module_tools_ko_def send_def logging_def summary3_def get_request3_def
          env_invalid_def env_of_def init_state_def w0_def respond_def tool_X_def args_new_def
          TOOL_API_URL_def)
  from a have a1: "fst (main3 env_new args_new w0)
       = Uncaught (raise NameError ''name tools_ko is not defined'')"
    by (metis fst_conv)
  show ?thesis using a a1 b main3_exit_code[of env a w] by simp
qed

text \<open>
  C7. \<^verbatim>\<open>delete_tool\<close> sends exactly one DELETE, to the URL of the tool. When the
  request is answered, the function returns and has logged one line: at level INFO for
  status 204, WARNING for 404, ERROR for any other status. Its result has no failure
  list to add to. The loop over the deleted paths sends one DELETE for each path, in
  order, as long as every DELETE is answered. In both scripts.
\<close>

theorem C7_delete_tool_one_request_three_outcomes:
  "sent (snd (delete_tool2 env tok i w)) = sent w @ [delete_request tok i]
   \<and> sent (snd (delete_tool3 env tok i w)) = sent w @ [delete_request tok i]
   \<and> (\<forall>r. net env (sent w) (delete_request tok i) = Inr r \<longrightarrow>
          fst (delete_tool2 env tok i w) = None
        \<and> map fst (logged (snd (delete_tool2 env tok i w)))
            = map fst (logged w) @ [delete_level (status_code r)]
        \<and> fst (delete_tool3 env tok i w) = None
        \<and> map fst (logged (snd (delete_tool3 env tok i w)))
            = map fst (logged w) @ [delete_level (status_code r)])
   \<and> (deletes_answered env \<longrightarrow>
          sent (snd (deleted_loop2 env tok ds w))
            = sent w @ map (\<lambda>d. delete_request tok (biotools_id_of d)) ds
        \<and> sent (snd (deleted_loop3 env tok ds w))
            = sent w @ map (\<lambda>d. delete_request tok (biotools_id_of d)) ds)"
  using delete_tool2_sent[of env tok i w] delete_tool3_sent[of env tok i w]
    delete_tool2_answered(1,2)[of env w tok i] delete_tool3_answered(1,2)[of env w tok i]
    deleted_loop2_answered[of env tok ds w] deleted_loop3_answered[of env tok ds w]
  by blast

theorem C7_delete_tool_witness:
  "map fst (logged (snd (delete_tool2 (env_delete 404) ''t'' ''X'' w0))) = [WARNING]
   \<and> map fst (logged (snd (delete_tool3 (env_delete 204) ''t'' ''X'' w0))) = [INFO]
   \<and> map fst (logged (snd (delete_tool3 (env_delete 500) ''t'' ''X'' w0))) = [ERROR]
   \<and> sent (snd (deleted_loop2 (env_delete 404) ''t'' [''data/X/X.biotools.json'', ''Y.json''] w0))
       = [delete_request ''t'' ''X'', delete_request ''t'' ''Y'']"
  using C7_delete_tool_one_request_three_outcomes[of "env_delete 404" "''t''" "''X''" w0
          "[''data/X/X.biotools.json'', ''Y.json'']"]
    C7_delete_tool_one_request_three_outcomes[of "env_delete 204" "''t''" "''X''" w0 "[]"]
    C7_delete_tool_one_request_three_outcomes[of "env_delete 500" "''t''" "''X''" w0 "[]"]
  by (simp add: env_delete_def env_of_def respond_def w0_def delete_level_def
        deletes_answered_def biotools_id_of_def basename_def)

text \<open>
  C8, as amended. When the importer runs to its end, every entry of the mapping parsed
  from the fetched body has its annotation object as the document of the file
  \<^verbatim>\<open><output_dir>/<tool-id>/<tool-id>.biocontainers.yaml\<close>, whatever that file held
  before, and the directory of the file and the directories above it exist. The file
  name ends in \<^verbatim>\<open>.biocontainers.yaml\<close>; nothing is written to
  \<^verbatim>\<open><tool-id>.annotations.ext\<close>, the name the claim gives.
\<close>

theorem C8_annotations_written_per_tool:
  assumes "get_text ienv u = Inr body"
    and "safe_load ienv body = Inr (JObj kvs)"
    and "distinct (map fst kvs)"
    and "import_biocontainers_annotations ienv u content_data_path f = (None, f')"
    and "(key, val) \<in> set kvs"
  shows "contents f' (content_data_path @ ''/'' @ key @ ''/'' @ key @ ''.biocontainers.yaml'')
           = Some val
       \<and> set (dirname (tool_annotation_yaml content_data_path key)
              # ancestors (dirname (tool_annotation_yaml content_data_path key)))
           \<subseteq> dirs f'"
proof -
  from assms(1,2,4) have "write_annotations ienv content_data_path kvs f = (None, f')"
    by (simp add: import_biocontainers_annotations_def)
  from write_annotations_written[OF this assms(3,5)]
  show ?thesis by (simp add: tool_annotation_yaml_def)
qed

theorem C8_annotations_witness:
  "fst (import_biocontainers_annotations ienv_two ''https://example.org/annotations.yaml''
          ''out'' fs_old) = None
   \<and> contents (snd (import_biocontainers_annotations ienv_two
          ''https://example.org/annotations.yaml'' ''out'' fs_old))
        ''out/toolA/toolA.biocontainers.yaml'' = Some (JObj [(''name'', JStr ''A'')])
   \<and> contents (snd (import_biocontainers_annotations ienv_two
          ''https://example.org/annotations.yaml'' ''out'' fs_old))
        ''out/toolB/toolB.biocontainers.yaml'' = Some (JObj [(''name'', JStr ''B'')])
   \<and> {''out/toolA'', ''out/toolB''} \<subseteq> dirs (snd (import_biocontainers_annotations ienv_two
          ''https://example.org/annotations.yaml'' ''out'' fs_old))"
proof -
  let ?r = "import_biocontainers_annotations ienv_two ''https://example.org/annotations.yaml''
              ''out'' fs_old"
  have n: "fst ?r = None"
    by (simp add: import_biocontainers_annotations_def ienv_two_def fs_old_def makedirs_def
          open_w_def dirname_def ancestors_def tool_annotation_yaml_def)
  then have e: "?r = (None, snd ?r)" by (metis prod.collapse)
  have g: "get_text ienv_two ''https://example.org/annotations.yaml''
             = Inr ''toolA: {name: A}, toolB: {name: B}''"
    by (simp add: ienv_two_def)
  have l: "safe_load ienv_two ''toolA: {name: A}, toolB: {name: B}''
             = Inr (JObj [(''toolA'', JObj [(''name'', JStr ''A'')]),
                          (''toolB'', JObj [(''name'', JStr ''B'')])])"
    by (simp add: ienv_two_def)
  have d: "distinct (map fst [(''toolA'', JObj [(''name'', JStr ''A'')]),
                              (''toolB'', JObj [(''name'', JStr ''B'')])])"
    by simp
  show ?thesis
    using n C8_annotations_written_per_tool[OF g l d e, of "''toolA''" "JObj [(''name'', JStr ''A'')]"]
      C8_annotations_written_per_tool[OF g l d e, of "''toolB''" "JObj [(''name'', JStr ''B'')]"]
    by (simp add: dirname_def tool_annotation_yaml_def)
qed

theorem C8_path_counterexample:
  "fst (import_biocontainers_annotations ienv_two ''https://example.org/annotations.yaml''
          ''out'' fs_old) = None
   \<and> contents (snd (import_biocontainers_annotations ienv_two
          ''https://example.org/annotations.yaml'' ''out'' fs_old))
        ''out/toolA/toolA.annotations.ext'' = None"
  by (simp add: import_biocontainers_annotations_def ienv_two_def fs_old_def makedirs_def
        open_w_def dirname_def ancestors_def tool_annotation_yaml_def)

text \<open>
  C9. An iteration of the loop of \<^verbatim>\<open>run_upload\<close> that ends without an uncaught exception
  (by the end of the \<^verbatim>\<open>try\<close> body, by \<^verbatim>\<open>continue\<close>, or by a handler that ran to
  its end) has appended exactly one entry to exactly one of \<^verbatim>\<open>tools_ok\<close>,
  \<^verbatim>\<open>tools_ko\<close> and \<^verbatim>\<open>tools_unchanged\<close> and left the other two as they were. In both
  scripts.
\<close>

theorem C9_one_bucket_per_completed_iteration:
  "(fst (iteration2 env tok f s2) = None \<longrightarrow>
      one_counted s2 (snd (iteration2 env tok f s2))
    \<and> length (tools_ok (snd (iteration2 env tok f s2)))
        + length (tools_ko (snd (iteration2 env tok f s2)))
        + length (tools_unchanged (snd (iteration2 env tok f s2)))
      = Suc (length (tools_ok s2) + length (tools_ko s2) + length (tools_unchanged s2)))
   \<and> (fst (iteration3 env tok f s3) = None \<longrightarrow>
      one_counted s3 (snd (iteration3 env tok f s3))
    \<and> length (tools_ok (snd (iteration3 env tok f s3)))
        + length (tools_ko (snd (iteration3 env tok f s3)))
        + length (tools_unchanged (snd (iteration3 env tok f s3)))
      = Suc (length (tools_ok s3) + length (tools_ko s3) + length (tools_unchanged s3)))"
proof -
  have len2: "\<And>s s' :: json state. one_counted s s' \<Longrightarrow>
      length (tools_ok s') + length (tools_ko s') + length (tools_unchanged s')
      = Suc (length (tools_ok s) + length (tools_ko s) + length (tools_unchanged s))"
    by (auto simp: count_defs)
  have len3: "\<And>s s' :: (json \<times> string) state. one_counted s s' \<Longrightarrow>
      length (tools_ok s') + length (tools_ko s') + length (tools_unchanged s')
      = Suc (length (tools_ok s) + length (tools_ko s) + length (tools_unchanged s))"
    by (auto simp: count_defs)
  have A: "fst (iteration2 env tok f s2) = None \<Longrightarrow>
      one_counted s2 (snd (iteration2 env tok f s2))"
    using iteration2_counts[of env tok f s2 "snd (iteration2 env tok f s2)"]
    by (cases "iteration2 env tok f s2") simp
  have B: "fst (iteration3 env tok f s3) = None \<Longrightarrow>
      one_counted s3 (snd (iteration3 env tok f s3))"
    using iteration3_counts[of env tok f s3 "snd (iteration3 env tok f s3)"]
    by (cases "iteration3 env tok f s3") simp
  show ?thesis using A B len2 len3 by blast
qed

theorem C9_one_bucket_witness:
  "fst (iteration2 env_unchanged ''t'' ''X.biotools.json'' (init_state w0)) = None
   \<and> one_counted (init_state w0)
        (snd (iteration2 env_unchanged ''t'' ''X.biotools.json'' (init_state w0)))
   \<and> fst (iteration3 (env_delete 500) ''t'' ''X.biotools.json'' (init_state w0)) = None
   \<and> one_counted (init_state w0)
        (snd (iteration3 (env_delete 500) ''t'' ''X.biotools.json'' (init_state w0)))"
proof -
  have a: "fst (iteration2 env_unchanged ''t'' ''X.biotools.json'' (init_state w0)) = None"
    by (simp add: iteration2_def try_body2_def checked2_def existing2_def send_def logging_def
          get_request2_def env_unchanged_def env_of_def init_state_def w0_def respond_def
          tool_X_def remote_X_def)
  have b: "fst (iteration3 (env_delete 500) ''t'' ''X.biotools.json'' (init_state w0)) = None"
    by (simp add: iteration3_def try_body3_def checked3_def send_def logging_def
          get_request3_def env_delete_def env_of_def init_state_def w0_def respond_def
          tool_X_def)
  show ?thesis
    using a b C9_one_bucket_per_completed_iteration[of env_unchanged "''t''" "''X.biotools.json''"
        "init_state w0" "init_state w0"]
      C9_one_bucket_per_completed_iteration[of "env_delete 500" "''t''" "''X.biotools.json''"
        "init_state w0" "init_state w0"]
    by simp
qed

text \<open>
  C10. The deletions never change the three result lists of \<^verbatim>\<open>run_upload\<close>: the
  lists are those of the run with an empty list of deleted paths. And whatever status
  the registry answers to the DELETE requests, the script ends as it does with an empty
  list of deleted paths, so with the same exit code: \<^verbatim>\<open>delete_tool\<close> only logs. In
  both scripts. (A DELETE that raises, a transport error, is no answer: that exception
  is not caught.)
\<close>

theorem C10_deletions_leave_report_and_exit_code:
  "fst (snd (main2 env a w)) = fst (snd (main2 env (a\<lparr>deleted := []\<rparr>) w))
   \<and> fst (snd (main3 env a w)) = fst (snd (main3 env (a\<lparr>deleted := []\<rparr>) w))
   \<and> (deletes_answered env \<longrightarrow>
          fst (main2 env a w) = fst (main2 env (a\<lparr>deleted := []\<rparr>) w)
        \<and> exit_code (fst (main2 env a w))
            = exit_code (fst (main2 env (a\<lparr>deleted := []\<rparr>) w))
        \<and> fst (main3 env a w) = fst (main3 env (a\<lparr>deleted := []\<rparr>) w)
        \<and> exit_code (fst (main3 env a w))
            = exit_code (fst (main3 env (a\<lparr>deleted := []\<rparr>) w)))"
  using main2_report[of env a w] main3_report[of env a w]
    main2_deleted[of env a w] main3_deleted[of env a w]
  by simp

theorem C10_deletions_witness:
  "deletes_answered env_sync
   \<and> exit_code (fst (main2 env_sync args_sync w0)) = 0
   \<and> map_option tools_ko (fst (snd (main2 env_sync args_sync w0))) = Some []
   \<and> map_option tools_ko (fst (snd (main3 env_sync args_sync w0))) = Some []"
proof -
  have d: "deletes_answered env_sync"
    by (simp add: deletes_answered_def env_sync_def env_of_def respond_def)
  have e: "main2 env_sync (args_sync\<lparr>deleted := []\<rparr>) w0
             = (Finished, fst (snd (main2 env_sync (args_sync\<lparr>deleted := []\<rparr>) w0)),
                snd (snd (main2 env_sync (args_sync\<lparr>deleted := []\<rparr>) w0)))
           \<and> map_option tools_ko (fst (snd (main2 env_sync (args_sync\<lparr>deleted := []\<rparr>) w0)))
               = Some []"
    by (simp add: main2_def run_upload2_def iteration2_def try_body2_def checked2_def
          existing2_def send_def logging_def summary2_def get_request2_def env_sync_def
          env_of_def init_state_def w0_def respond_def tool_X_def remote_X_def args_sync_def
          HEADERS_def)
  have f: "map_option tools_ko (fst (snd (main3 env_sync (args_sync\<lparr>deleted := []\<rparr>) w0)))
               = Some []"
    by (simp add: main3_def run_upload3_def iteration3_def try_body3_def checked3_def
          existing3_def send_def logging_def summary3_def get_request3_def env_sync_def
          env_of_def init_state_def w0_def respond_def tool_X_def remote_X_def args_sync_def
          write_report_def module_tools_ko_def)
  from e have e1: "fst (main2 env_sync (args_sync\<lparr>deleted := []\<rparr>) w0) = Finished"
    by (metis fst_conv)
  show ?thesis
    using d e e1 f C10_deletions_leave_report_and_exit_code[of env_sync args_sync w0]
    by simp
qed

end
